theory Spec2Isabelle
  imports Main "HOL-Library.Word"
begin

unbundle bit_operations_syntax

section \<open>The managed cluster service (cloud/services/managedclusters)\<close>

text \<open>
  A shallow embedding of \<^verbatim>\<open>managedclusters.go\<close>: the specification structs, the four
  methods of \<^verbatim>\<open>Service\<close> (Get, GetCredentials, Reconcile, Delete) and the parts of the Go
  standard library that Reconcile computes with (\<^verbatim>\<open>net.ParseCIDR\<close>, \<^verbatim>\<open>IP.String\<close>,
  \<^verbatim>\<open>strings.EqualFold\<close>, the error constructors).

  Go strings are byte strings: \<open>string\<close>. A \<^verbatim>\<open>byte\<close> is an 8-bit word and an \<^verbatim>\<open>int32\<close> a
  32-bit word (read as signed with \<open>sint\<close>). Go's \<^verbatim>\<open>int\<close> is \<open>int\<close>: the parsers below stop at
  \<open>big\<close>, far from its bounds; positions in a string or a slice are \<open>nat\<close>.
\<close>

type_synonym byte = "8 word"
type_synonym int32 = "32 word"

subsection \<open>Errors\<close>

text \<open>
  The error values the package builds or passes on, with the method \<^verbatim>\<open>Error()\<close>:
  \<^item> \<open>errorString\<close>: \<^verbatim>\<open>errors.New(text)\<close>, and \<^verbatim>\<open>fmt.Errorf\<close> without the verb \<^verbatim>\<open>%w\<close>;
  \<^item> \<open>ParseError\<close>: \<^verbatim>\<open>net.ParseError{Type, Text}\<close>;
  \<^item> \<open>wrapError\<close>: \<^verbatim>\<open>fmt.Errorf\<close> with \<^verbatim>\<open>%w\<close> (the whole message, the wrapped error);
  \<^item> \<open>withMessage\<close>: \<^verbatim>\<open>errors.Wrapf\<close> of github.com/pkg/errors (the cause, the message
    put in front of it).
  An error of the provider client is any value of this type.
\<close>

datatype error =
    errorString string
  | ParseError string string
  | wrapError string error
  | withMessage error string

fun Error :: "error \<Rightarrow> string" where
  "Error (errorString s) = s"
| "Error (ParseError ty text) = ''invalid '' @ ty @ '': '' @ text"
| "Error (wrapError msg err) = msg"
| "Error (withMessage cause msg) = msg @ '': '' @ Error cause"

text \<open>\<^verbatim>\<open>Unwrap\<close> (for \<open>wrapError\<close>) and \<^verbatim>\<open>Cause\<close> (for \<open>withMessage\<close>): the error inside.\<close>

fun Unwrap :: "error \<Rightarrow> error option" where
  "Unwrap (wrapError msg err) = Some err"
| "Unwrap (withMessage cause msg) = Some cause"
| "Unwrap e = None"

definition errors_New :: "string \<Rightarrow> error" where
  "errors_New text = errorString text"

text \<open>\<^verbatim>\<open>fmt.Errorf(prefix + "%w", err)\<close>.\<close>

definition Errorf_w :: "string \<Rightarrow> error \<Rightarrow> error" where
  "Errorf_w prefix err = wrapError (prefix @ Error err) err"

text \<open>\<^verbatim>\<open>errors.Wrapf(err, format, args...)\<close> for a non-nil \<open>err\<close>; \<open>msg\<close> is the formatted text.\<close>

definition Wrapf :: "error \<Rightarrow> string \<Rightarrow> error" where
  "Wrapf err msg = withMessage err msg"

subsection \<open>strings\<close>

text \<open>
  \<^verbatim>\<open>strings.EqualFold\<close> compares under Unicode simple case folding. Reconcile calls it
  with the constants "Azure" and "Calico", whose letters fold only to their ASCII
  partners, so there it is equality of the bytes after lowering \<open>A..Z\<close>.
  \<^verbatim>\<open>strings.Contains\<close> is used to state what a message mentions.
\<close>

definition toLower :: "char \<Rightarrow> char" where
  "toLower c = (let n = (of_char c :: nat) in if 65 \<le> n \<and> n \<le> 90 then char_of (n + 32) else c)"

definition EqualFold :: "string \<Rightarrow> string \<Rightarrow> bool" where
  "EqualFold s t = (map toLower s = map toLower t)"

fun HasPrefix :: "string \<Rightarrow> string \<Rightarrow> bool" where
  "HasPrefix s [] = True"
| "HasPrefix [] (c # sub) = False"
| "HasPrefix (d # s) (c # sub) = (if d = c then HasPrefix s sub else False)"

fun Contains :: "string \<Rightarrow> string \<Rightarrow> bool" where
  "Contains [] sub = (sub = [])"
| "Contains (c # s) sub = (if HasPrefix (c # s) sub then True else Contains s sub)"

subsection \<open>net: parsing a CIDR and printing an address\<close>

text \<open>
  \<^verbatim>\<open>net/parse.go\<close> and \<^verbatim>\<open>net/ip.go\<close> of the Go release the package was written for (1.13,
  1.14). An \<^verbatim>\<open>IP\<close> is a byte slice of length 4 or 16; \<^verbatim>\<open>nil\<close> is \<open>None\<close>.
\<close>

type_synonym IP = "byte list"
type_synonym IPMask = "byte list"

record IPNet =
  IP :: IP
  Mask :: IPMask

definition IPv4len :: nat where
  "IPv4len = 4"

definition IPv6len :: nat where
  "IPv6len = 16"

definition big :: int where
  "big = 0xFFFFFF"

text \<open>\<^verbatim>\<open>dtoi\<close>: decimal to integer; the number, the characters consumed, success.\<close>

fun dtoi_loop :: "string \<Rightarrow> int \<Rightarrow> nat \<Rightarrow> int \<times> nat \<times> bool" where
  "dtoi_loop [] n i = (if i = 0 then (0, 0, False) else (n, i, True))"
| "dtoi_loop (c # s) n i =
     (let d = (of_char c :: int) in
      if 48 \<le> d \<and> d \<le> 57 then
        (let n' = n * 10 + (d - 48) in
         if n' \<ge> big then (big, i, False) else dtoi_loop s n' (i + 1))
      else if i = 0 then (0, 0, False) else (n, i, True))"

definition dtoi :: "string \<Rightarrow> int \<times> nat \<times> bool" where
  "dtoi s = dtoi_loop s 0 0"

text \<open>\<^verbatim>\<open>xtoi\<close>: hexadecimal to integer; the number, the characters consumed, success.\<close>

definition hexval :: "char \<Rightarrow> int option" where
  "hexval c =
     (let d = (of_char c :: int) in
      if 48 \<le> d \<and> d \<le> 57 then Some (d - 48)
      else if 97 \<le> d \<and> d \<le> 102 then Some (d - 97 + 10)
      else if 65 \<le> d \<and> d \<le> 70 then Some (d - 65 + 10)
      else None)"

fun xtoi_loop :: "string \<Rightarrow> int \<Rightarrow> nat \<Rightarrow> int \<times> nat \<times> bool" where
  "xtoi_loop [] n i = (if i = 0 then (0, i, False) else (n, i, True))"
| "xtoi_loop (c # s) n i =
     (case hexval c of
        Some v \<Rightarrow>
          (let n' = n * 16 + v in
           if n' \<ge> big then (0, i, False) else xtoi_loop s n' (i + 1))
      | None \<Rightarrow> if i = 0 then (0, i, False) else (n, i, True))"

definition xtoi :: "string \<Rightarrow> int \<times> nat \<times> bool" where
  "xtoi s = xtoi_loop s 0 0"

text \<open>\<^verbatim>\<open>IPv4(a, b, c, d)\<close>: the 16-byte form of an IPv4 address.\<close>

definition v4InV6Prefix :: "byte list" where
  "v4InV6Prefix = [0, 0, 0, 0, 0, 0, 0, 0, 0, 0, 0xff, 0xff]"

definition IPv4 :: "byte \<Rightarrow> byte \<Rightarrow> byte \<Rightarrow> byte \<Rightarrow> IP" where
  "IPv4 a b c d = v4InV6Prefix @ [a, b, c, d]"

text \<open>
  \<^verbatim>\<open>parseIPv4\<close>: the loop \<^verbatim>\<open>for i := 0; i < IPv4len; i++\<close>, with \<open>k\<close> the fields still
  to read, \<open>i\<close> the field, \<open>s\<close> what is left of the text, \<open>p\<close> the bytes so far. A field
  may have leading zeros (rejected from Go 1.17 on).
\<close>

fun parseIPv4_loop :: "nat \<Rightarrow> nat \<Rightarrow> string \<Rightarrow> byte list \<Rightarrow> (byte list \<times> string) option" where
  "parseIPv4_loop 0 i s p = Some (p, s)"
| "parseIPv4_loop (Suc k) i s p =
     (if s = [] then None
      else if 0 < i \<and> hd s \<noteq> CHR ''.'' then None
      else
        (let s1 = (if 0 < i then tl s else s) in
         case dtoi s1 of (n, c, ok) \<Rightarrow>
           if ok \<and> n \<le> 0xFF then parseIPv4_loop k (i + 1) (drop c s1) (p[i := word_of_int n])
           else None))"

definition parseIPv4 :: "string \<Rightarrow> IP option" where
  "parseIPv4 s =
     (case parseIPv4_loop IPv4len 0 s [0, 0, 0, 0] of
        None \<Rightarrow> None
      | Some (p, rest) \<Rightarrow>
          if rest = [] then Some (IPv4 (p ! 0) (p ! 1) (p ! 2) (p ! 3)) else None)"

text \<open>
  \<^verbatim>\<open>parseIPv6\<close>. The main loop \<^verbatim>\<open>for i < IPv6len\<close> moves \<open>i\<close> on by two bytes or more each
  round, so eight rounds (\<open>k\<close>) are all it can take. Its result is where it stopped: \<open>i\<close>,
  the text left, the bytes, the position of the ellipsis (\<open>-1\<close> for none); \<open>None\<close> is the
  \<^verbatim>\<open>return nil\<close> inside it.
\<close>

fun parseIPv6_loop ::
  "nat \<Rightarrow> nat \<Rightarrow> string \<Rightarrow> IP \<Rightarrow> int \<Rightarrow> (nat \<times> string \<times> IP \<times> int) option" where
  "parseIPv6_loop 0 i s ip ellipsis = Some (i, s, ip, ellipsis)"
| "parseIPv6_loop (Suc k) i s ip ellipsis =
     (if IPv6len \<le> i then Some (i, s, ip, ellipsis)
      else
        (case xtoi s of (n, c, ok) \<Rightarrow>
           if ok \<and> n \<le> 0xFFFF then
             (if c < length s \<and> s ! c = CHR ''.'' then
                (if ellipsis < 0 \<and> i \<noteq> IPv6len - IPv4len then None
                 else if IPv6len < i + IPv4len then None
                 else
                   (case parseIPv4 s of
                      None \<Rightarrow> None
                    | Some ip4 \<Rightarrow>
                        Some (i + IPv4len, [],
                          ip[i := ip4 ! 12, i + 1 := ip4 ! 13, i + 2 := ip4 ! 14, i + 3 := ip4 ! 15],
                          ellipsis)))
              else
                (let ip1 = ip[i := word_of_int (drop_bit 8 n), i + 1 := word_of_int n];
                     i1 = i + 2;
                     s1 = drop c s
                 in if s1 = [] then Some (i1, s1, ip1, ellipsis)
                    else if hd s1 = CHR '':'' \<and> length s1 \<noteq> 1 then
                      (let s2 = tl s1 in
                       if hd s2 = CHR '':'' then
                         (if 0 \<le> ellipsis then None
                          else if tl s2 = [] then Some (i1, [], ip1, int i1)
                          else parseIPv6_loop k i1 (tl s2) ip1 (int i1))
                       else parseIPv6_loop k i1 s2 ip1 ellipsis)
                    else None))
           else None))"

text \<open>Expanding the ellipsis: the two loops that move the tail up and zero the gap.\<close>

fun expand_move :: "nat \<Rightarrow> nat \<Rightarrow> nat \<Rightarrow> IP \<Rightarrow> IP" where
  "expand_move 0 e n ip = ip"
| "expand_move (Suc k) e n ip = expand_move k e n (ip[e + k + n := ip ! (e + k)])"

fun expand_zero :: "nat \<Rightarrow> nat \<Rightarrow> IP \<Rightarrow> IP" where
  "expand_zero 0 e ip = ip"
| "expand_zero (Suc k) e ip = expand_zero k e (ip[e + k := 0])"

definition parseIPv6 :: "string \<Rightarrow> IP option" where
  "parseIPv6 s =
     (let ip0 = replicate IPv6len (0 :: byte);
          leading = (2 \<le> length s \<and> s ! 0 = CHR '':'' \<and> s ! 1 = CHR '':'')
      in if leading \<and> drop 2 s = [] then Some ip0
         else
           (case parseIPv6_loop 8 0 (if leading then drop 2 s else s) ip0
                   (if leading then 0 else - 1) of
              None \<Rightarrow> None
            | Some (i, rest, ip, ellipsis) \<Rightarrow>
                if rest = [] then
                  (if i < IPv6len then
                     (if ellipsis < 0 then None
                      else
                        (let e = nat ellipsis; n = IPv6len - i
                         in Some (expand_zero n e (expand_move (i - e) e n ip))))
                   else if 0 \<le> ellipsis then None
                   else Some ip)
                else None))"

text \<open>\<^verbatim>\<open>CIDRMask(ones, bits)\<close>; a \<^verbatim>\<open>nil\<close> mask is the empty list (its length is 0).\<close>

fun CIDRMask_loop :: "nat \<Rightarrow> nat \<Rightarrow> nat \<Rightarrow> IPMask \<Rightarrow> IPMask" where
  "CIDRMask_loop 0 i n m = m"
| "CIDRMask_loop (Suc k) i n m =
     (if 8 \<le> n then CIDRMask_loop k (i + 1) (n - 8) (m[i := 0xff])
      else CIDRMask_loop k (i + 1) 0 (m[i := NOT (drop_bit n 0xff)]))"

definition CIDRMask :: "int \<Rightarrow> nat \<Rightarrow> IPMask" where
  "CIDRMask ones bits =
     (if bits \<noteq> 8 * IPv4len \<and> bits \<noteq> 8 * IPv6len then []
      else if ones < 0 \<or> int bits < ones then []
      else (let l = bits div 8 in CIDRMask_loop l 0 (nat ones) (replicate l 0)))"

text \<open>\<^verbatim>\<open>ip.Mask(mask)\<close>; the \<^verbatim>\<open>nil\<close> result is the empty list.\<close>

definition allFF :: "byte list \<Rightarrow> bool" where
  "allFF b = list_all (\<lambda>c. c = 0xff) b"

definition IP_Mask :: "IP \<Rightarrow> IPMask \<Rightarrow> IP" where
  "IP_Mask ip msk =
     (let mask1 = (if length msk = IPv6len \<and> length ip = IPv4len \<and> allFF (take 12 msk)
                   then drop 12 msk else msk);
          ip1 = (if length mask1 = IPv4len \<and> length ip = IPv6len \<and> take 12 ip = v4InV6Prefix
                 then drop 12 ip else ip)
      in if length ip1 \<noteq> length mask1 then [] else map2 (AND) ip1 mask1)"

text \<open>
  \<^verbatim>\<open>ParseCIDR(s)\<close>: the address as it is written (16 bytes, not masked) and the network
  (the address masked, and the mask), or a \<open>ParseError\<close>.
\<close>

fun IndexByteString :: "string \<Rightarrow> char \<Rightarrow> nat option" where
  "IndexByteString [] c = None"
| "IndexByteString (d # s) c =
     (if d = c then Some 0 else map_option Suc (IndexByteString s c))"

definition ParseCIDR :: "string \<Rightarrow> error + (IP \<times> IPNet)" where
  "ParseCIDR s =
     (case IndexByteString s (CHR ''/'') of
        None \<Rightarrow> Inl (ParseError ''CIDR address'' s)
      | Some i \<Rightarrow>
          (let addr = take i s; msk = drop (i + 1) s;
               ip4 = parseIPv4 addr;
               iplen = (if ip4 = None then IPv6len else IPv4len);
               ip = (if ip4 = None then parseIPv6 addr else ip4)
           in case dtoi msk of (n, j, ok) \<Rightarrow>
                (case ip of
                   None \<Rightarrow> Inl (ParseError ''CIDR address'' s)
                 | Some p \<Rightarrow>
                     if ok \<and> j = length msk \<and> 0 \<le> n \<and> n \<le> int (8 * iplen) then
                       (let m = CIDRMask n (8 * iplen)
                        in Inr (p, \<lparr>IP = IP_Mask p m, Mask = m\<rparr>))
                     else Inl (ParseError ''CIDR address'' s))))"

text \<open>\<^verbatim>\<open>ip.To4()\<close>.\<close>

definition isZeros :: "byte list \<Rightarrow> bool" where
  "isZeros p = list_all (\<lambda>c. c = 0) p"

definition To4 :: "IP \<Rightarrow> IP option" where
  "To4 ip =
     (if length ip = IPv4len then Some ip
      else if length ip = IPv6len \<and> isZeros (take 10 ip) \<and> ip ! 10 = 0xff \<and> ip ! 11 = 0xff
      then Some (take 4 (drop 12 ip))
      else None)"

text \<open>\<^verbatim>\<open>ip.String()\<close>: dotted decimal for an IPv4 address, else the IPv6 text form with the
  longest run of zero groups written \<^verbatim>\<open>::\<close>.\<close>

definition digit :: "int \<Rightarrow> char" where
  "digit v = char_of (v + 48)"

definition ubtoa :: "byte \<Rightarrow> string" where
  "ubtoa b =
     (let v = uint b in
      if v < 10 then [digit v]
      else if v < 100 then [digit (v div 10), digit (v mod 10)]
      else [digit (v div 100), digit ((v div 10) mod 10), digit (v mod 10)])"

definition hexDigit :: string where
  "hexDigit = ''0123456789abcdef''"

fun appendHex_loop :: "nat \<Rightarrow> string \<Rightarrow> 32 word \<Rightarrow> string" where
  "appendHex_loop 0 dst i = dst"
| "appendHex_loop (Suc j) dst i =
     (let v = drop_bit (j * 4) i
      in appendHex_loop j (if 0 < v then dst @ [hexDigit ! unat (v AND 0xf)] else dst) i)"

definition appendHex :: "string \<Rightarrow> 32 word \<Rightarrow> string" where
  "appendHex dst i = (if i = 0 then dst @ ''0'' else appendHex_loop 8 dst i)"

definition hexString :: "byte list \<Rightarrow> string" where
  "hexString b =
     concat (map (\<lambda>tn. [hexDigit ! unat (drop_bit 4 tn), hexDigit ! unat (tn AND 0xf)]) b)"

fun zero_run :: "nat \<Rightarrow> nat \<Rightarrow> IP \<Rightarrow> nat" where
  "zero_run 0 j p = j"
| "zero_run (Suc k) j p =
     (if j < IPv6len \<and> p ! j = 0 \<and> p ! (j + 1) = 0 then zero_run k (j + 2) p else j)"

fun longest_zero_run :: "nat \<Rightarrow> nat \<Rightarrow> IP \<Rightarrow> int \<Rightarrow> int \<Rightarrow> int \<times> int" where
  "longest_zero_run 0 i p e0 e1 = (e0, e1)"
| "longest_zero_run (Suc k) i p e0 e1 =
     (if i < IPv6len then
        (let j = zero_run 8 i p in
         if i < j \<and> e1 - e0 < int j - int i then longest_zero_run k (j + 2) p (int i) (int j)
         else longest_zero_run k (i + 2) p e0 e1)
      else (e0, e1))"

definition group16 :: "IP \<Rightarrow> nat \<Rightarrow> 32 word" where
  "group16 p i = push_bit 8 (ucast (p ! i)) OR ucast (p ! (i + 1))"

fun print_groups :: "nat \<Rightarrow> nat \<Rightarrow> IP \<Rightarrow> int \<Rightarrow> int \<Rightarrow> string \<Rightarrow> string" where
  "print_groups 0 i p e0 e1 b = b"
| "print_groups (Suc k) i p e0 e1 b =
     (if i < IPv6len then
        (if int i = e0 then
           (let i1 = nat e1 in
            if IPv6len \<le> i1 then b @ ''::''
            else print_groups k (i1 + 2) p e0 e1 (appendHex (b @ ''::'') (group16 p i1)))
         else
           print_groups k (i + 2) p e0 e1
             (appendHex (if 0 < i then b @ '':'' else b) (group16 p i)))
      else b)"

definition IP_String :: "IP \<Rightarrow> string" where
  "IP_String ip =
     (if ip = [] then ''<nil>''
      else
        (case (case To4 ip of None \<Rightarrow> None | Some p4 \<Rightarrow> if length p4 = IPv4len then Some p4 else None) of
           Some p4 \<Rightarrow>
             ubtoa (p4 ! 0) @ ''.'' @ ubtoa (p4 ! 1) @ ''.'' @ ubtoa (p4 ! 2) @ ''.'' @ ubtoa (p4 ! 3)
         | None \<Rightarrow>
             if length ip \<noteq> IPv6len then ''?'' @ hexString ip
             else
               (case longest_zero_run 8 0 ip (- 1) (- 1) of (e0, e1) \<Rightarrow>
                  if e1 - e0 \<le> 2 then print_groups 8 0 ip (- 1) (- 1) []
                  else print_groups 8 0 ip e0 e1 [])))"

text \<open>\<^verbatim>\<open>n.Contains(ip)\<close>, with \<^verbatim>\<open>networkNumberAndMask\<close>.\<close>

definition networkNumberAndMask :: "IPNet \<Rightarrow> (IP \<times> IPMask) option" where
  "networkNumberAndMask n =
     (case (case To4 (IP n) of
              Some ip \<Rightarrow> Some ip
            | None \<Rightarrow> if length (IP n) \<noteq> IPv6len then None else Some (IP n)) of
        None \<Rightarrow> None
      | Some ip \<Rightarrow>
          (let m = Mask n in
           if length m = IPv4len then (if length ip \<noteq> IPv4len then None else Some (ip, m))
           else if length m = IPv6len then
             Some (ip, if length ip = IPv4len then drop 12 m else m)
           else None))"

definition IPNet_Contains :: "IPNet \<Rightarrow> IP \<Rightarrow> bool" where
  "IPNet_Contains n ip =
     (case networkNumberAndMask n of
        None \<Rightarrow> False
      | Some (nn, m) \<Rightarrow>
          (let ip1 = (case To4 ip of Some x \<Rightarrow> x | None \<Rightarrow> ip) in
           if length ip1 \<noteq> length nn then False
           else list_all (\<lambda>i. nn ! i AND m ! i = ip1 ! i AND m ! i) [0 ..< length ip1]))"

subsection \<open>The specification (lines 36 to 80)\<close>

text \<open>
  \<^verbatim>\<open>Spec\<close> and \<^verbatim>\<open>PoolSpec\<close>. A \<^verbatim>\<open>*string\<close> field of the specification is \<open>None\<close> for \<^verbatim>\<open>nil\<close>,
  else the string it points to (Reconcile only copies that string). The map \<^verbatim>\<open>Tags\<close> and
  the slice \<^verbatim>\<open>AgentPools\<close> are kept by value: the methods never write to either.
\<close>

record PoolSpec =
  Name :: string
  SKU :: string
  Replicas :: int32
  OSDiskSizeGB :: int32

record Spec =
  Name :: string
  ResourceGroup :: string
  Location :: string
  Tags :: "string \<rightharpoonup> string"
  Version :: string
  LoadBalancerSKU :: "string option"
  NetworkPlugin :: "string option"
  NetworkPolicy :: "string option"
  SSHPublicKey :: string
  AgentPools :: "PoolSpec list"
  PodCIDR :: string
  ServiceCIDR :: string

text \<open>
  The methods take \<^verbatim>\<open>spec interface{}\<close>: a value of any dynamic type. The type assertion
  \<^verbatim>\<open>spec.(*Spec)\<close> holds exactly for the dynamic type \<^verbatim>\<open>*Spec\<close>, a pointer that is \<^verbatim>\<open>nil\<close>
  (\<open>ptr_Spec None\<close>) or the address of a \<^verbatim>\<open>Spec\<close>.
\<close>

type_synonym addr = nat

datatype iface =
    nil_interface
  | ptr_Spec "addr option"
  | val_Spec Spec
  | val_string string
  | val_int int

subsection \<open>The provider's resource (containerservice, API version 2020-02-01)\<close>

text \<open>
  The fields of \<^verbatim>\<open>containerservice.ManagedCluster\<close> that Reconcile sets; every other field
  keeps its zero value. The structs that Reconcile allocates inside it
  (\<^verbatim>\<open>ManagedClusterProperties\<close>, embedded; \<^verbatim>\<open>Identity\<close>, \<^verbatim>\<open>LinuxProfile\<close>, \<^verbatim>\<open>SSH\<close>,
  \<^verbatim>\<open>ServicePrincipalProfile\<close>) are written as fields named by their path.

  A field of type \<^verbatim>\<open>*string\<close> or \<^verbatim>\<open>*int32\<close> holds \<open>None\<close> for \<^verbatim>\<open>nil\<close> or a pointer. The types
  \<open>'s\<close> and \<open>'i\<close> say what a pointer is: while Reconcile builds the value, the variable
  pointed to (\<open>string_ptr\<close>, \<open>int32_ptr\<close>); for the provider client, which reads the
  pointers when it is called, the string or number found there.
\<close>

record ('s, 'i) ManagedClusterAgentPoolProfile =
  Name :: "'s option"
  Count :: "'i option"
  VMSize :: string
  OsDiskSizeGB :: "'i option"
  Type :: string

record 's NetworkProfileType =
  NetworkPlugin :: string
  NetworkPolicy :: string
  PodCidr :: "'s option"
  ServiceCidr :: "'s option"
  DNSServiceIP :: "'s option"
  LoadBalancerSku :: string

record ('s, 'i) ManagedCluster =
  Identity_Type :: string
  Location :: "'s option"
  DNSPrefix :: "'s option"
  KubernetesVersion :: "'s option"
  LinuxProfile_AdminUsername :: "'s option"
  LinuxProfile_SSH_PublicKeys_KeyData :: "'s option list"
  ServicePrincipalProfile_ClientID :: "'s option"
  AgentPoolProfiles :: "('s, 'i) ManagedClusterAgentPoolProfile list"
  NetworkProfile :: "'s NetworkProfileType"

type_synonym resource = "(string, int32) ManagedCluster"

text \<open>
  The constants of the enumerations that Reconcile uses. An enumeration of this package
  is a string type (a conversion such as \<^verbatim>\<open>containerservice.NetworkPlugin(s)\<close> keeps the
  string), and the constants have the values the package gives them.
\<close>

definition SystemAssigned :: string where
  "SystemAssigned = ''SystemAssigned''"

definition Azure :: string where
  "Azure = ''azure''"

definition Standard :: string where
  "Standard = ''standard''"

definition NetworkPolicyAzure :: string where
  "NetworkPolicyAzure = ''azure''"

definition NetworkPolicyCalico :: string where
  "NetworkPolicyCalico = ''calico''"

definition VirtualMachineScaleSets :: string where
  "VirtualMachineScaleSets = ''VirtualMachineScaleSets''"

subsection \<open>Memory, and the provider client\<close>

text \<open>
  Reconcile stores addresses in the resource: of fields of the specification, of the
  package variables \<^verbatim>\<open>defaultUser\<close> and \<^verbatim>\<open>managedIdentity\<close> (lines 31 to 34), and of two
  variables of its own: \<^verbatim>\<open>dnsIP\<close>, and \<^verbatim>\<open>pool\<close>, the variable of the range loop. In the Go
  of this source (before 1.22) a range loop has one variable, assigned anew in each
  round.
\<close>

datatype string_ptr =
    addr_Spec_Location addr
  | addr_Spec_Name addr
  | addr_Spec_Version addr
  | addr_Spec_SSHPublicKey addr
  | addr_Spec_PodCIDR addr
  | addr_Spec_ServiceCIDR addr
  | addr_defaultUser
  | addr_managedIdentity
  | addr_pool_Name
  | addr_dnsIP

datatype int32_ptr =
    addr_pool_OSDiskSizeGB
  | addr_pool_Replicas

text \<open>A call of the provider client, with its arguments as the client reads them.\<close>

datatype call =
    Call_Get string string
  | Call_GetCredentials string string
  | Call_CreateOrUpdate string string resource
  | Call_Delete string string

text \<open>
  The state outside a method: the \<^verbatim>\<open>Spec\<close> values that pointers lead to (a pointer that is
  not \<^verbatim>\<open>nil\<close> always leads to one), the package variables, the provider's own state
  \<open>'c\<close>, and the calls made to the provider client so far.
\<close>

record 'c state =
  heap :: "addr \<Rightarrow> Spec"
  defaultUser :: string
  managedIdentity :: string
  client :: 'c
  calls :: "call list"

text \<open>
  The interface \<^verbatim>\<open>Client\<close> (the context argument is left out): each method reads and
  changes the provider's state only, and returns what the Go method returns, \<open>None\<close>
  for a \<^verbatim>\<open>nil\<close> error. \<^verbatim>\<open>Service\<close> (declared in another file of the package) holds the
  client; its methods here use nothing else of it.
\<close>

record 'c Client =
  Get :: "'c \<Rightarrow> string \<Rightarrow> string \<Rightarrow> (resource \<times> error option) \<times> 'c"
  GetCredentials :: "'c \<Rightarrow> string \<Rightarrow> string \<Rightarrow> (byte list \<times> error option) \<times> 'c"
  CreateOrUpdate :: "'c \<Rightarrow> string \<Rightarrow> string \<Rightarrow> resource \<Rightarrow> error option \<times> 'c"
  Delete :: "'c \<Rightarrow> string \<Rightarrow> string \<Rightarrow> error option \<times> 'c"

record 'c Service =
  Client :: "'c Client"

text \<open>Calling the client: the call is recorded and the provider's state replaced.\<close>

definition call_Get ::
  "'c Service \<Rightarrow> string \<Rightarrow> string \<Rightarrow> 'c state \<Rightarrow> (resource \<times> error option) \<times> 'c state" where
  "call_Get s rg name \<sigma> =
     (case Client.Get (Client s) (client \<sigma>) rg name of
        (r, c') \<Rightarrow> (r, \<sigma>\<lparr>client := c', calls := calls \<sigma> @ [Call_Get rg name]\<rparr>))"

definition call_GetCredentials ::
  "'c Service \<Rightarrow> string \<Rightarrow> string \<Rightarrow> 'c state \<Rightarrow> (byte list \<times> error option) \<times> 'c state" where
  "call_GetCredentials s rg name \<sigma> =
     (case Client.GetCredentials (Client s) (client \<sigma>) rg name of
        (r, c') \<Rightarrow> (r, \<sigma>\<lparr>client := c', calls := calls \<sigma> @ [Call_GetCredentials rg name]\<rparr>))"

definition call_CreateOrUpdate ::
  "'c Service \<Rightarrow> string \<Rightarrow> string \<Rightarrow> resource \<Rightarrow> 'c state \<Rightarrow> error option \<times> 'c state" where
  "call_CreateOrUpdate s rg name res \<sigma> =
     (case Client.CreateOrUpdate (Client s) (client \<sigma>) rg name res of
        (r, c') \<Rightarrow> (r, \<sigma>\<lparr>client := c', calls := calls \<sigma> @ [Call_CreateOrUpdate rg name res]\<rparr>))"

definition call_Delete ::
  "'c Service \<Rightarrow> string \<Rightarrow> string \<Rightarrow> 'c state \<Rightarrow> error option \<times> 'c state" where
  "call_Delete s rg name \<sigma> =
     (case Client.Delete (Client s) (client \<sigma>) rg name of
        (r, c') \<Rightarrow> (r, \<sigma>\<lparr>client := c', calls := calls \<sigma> @ [Call_Delete rg name]\<rparr>))"

text \<open>The resources that the calls of \<^verbatim>\<open>CreateOrUpdate\<close> in a list of calls carried.\<close>

fun submitted :: "call list \<Rightarrow> resource list" where
  "submitted [] = []"
| "submitted (Call_CreateOrUpdate rg name r # cs) = r # submitted cs"
| "submitted (c # cs) = submitted cs"

text \<open>A method returns, or panics (dereferencing a \<^verbatim>\<open>nil\<close> pointer).\<close>

datatype panic = NilPointerDereference

datatype 'a outcome = Returned 'a | Panicked panic

subsection \<open>Reconcile's own variables, and reading through pointers\<close>

record locals =
  pool :: PoolSpec
  dnsIP :: string
  properties :: "(string_ptr, int32_ptr) ManagedCluster"

fun load_string :: "'c state \<Rightarrow> locals \<Rightarrow> string_ptr \<Rightarrow> string" where
  "load_string \<sigma> l (addr_Spec_Location a) = Spec.Location (heap \<sigma> a)"
| "load_string \<sigma> l (addr_Spec_Name a) = Spec.Name (heap \<sigma> a)"
| "load_string \<sigma> l (addr_Spec_Version a) = Version (heap \<sigma> a)"
| "load_string \<sigma> l (addr_Spec_SSHPublicKey a) = SSHPublicKey (heap \<sigma> a)"
| "load_string \<sigma> l (addr_Spec_PodCIDR a) = PodCIDR (heap \<sigma> a)"
| "load_string \<sigma> l (addr_Spec_ServiceCIDR a) = ServiceCIDR (heap \<sigma> a)"
| "load_string \<sigma> l addr_defaultUser = defaultUser \<sigma>"
| "load_string \<sigma> l addr_managedIdentity = managedIdentity \<sigma>"
| "load_string \<sigma> l addr_pool_Name = PoolSpec.Name (pool l)"
| "load_string \<sigma> l addr_dnsIP = dnsIP l"

fun load_int32 :: "locals \<Rightarrow> int32_ptr \<Rightarrow> int32" where
  "load_int32 l addr_pool_OSDiskSizeGB = OSDiskSizeGB (pool l)"
| "load_int32 l addr_pool_Replicas = Replicas (pool l)"

text \<open>The resource as the client reads it when it is called: every pointer followed.\<close>

definition read_profile ::
  "'c state \<Rightarrow> locals \<Rightarrow> (string_ptr, int32_ptr) ManagedClusterAgentPoolProfile
     \<Rightarrow> (string, int32) ManagedClusterAgentPoolProfile" where
  "read_profile \<sigma> l p =
     \<lparr>ManagedClusterAgentPoolProfile.Name =
        map_option (load_string \<sigma> l) (ManagedClusterAgentPoolProfile.Name p),
      Count = map_option (load_int32 l) (Count p),
      VMSize = VMSize p,
      OsDiskSizeGB = map_option (load_int32 l) (OsDiskSizeGB p),
      Type = Type p\<rparr>"

definition read_NetworkProfile ::
  "'c state \<Rightarrow> locals \<Rightarrow> string_ptr NetworkProfileType \<Rightarrow> string NetworkProfileType" where
  "read_NetworkProfile \<sigma> l n =
     \<lparr>NetworkProfileType.NetworkPlugin = NetworkProfileType.NetworkPlugin n,
      NetworkPolicy = NetworkProfileType.NetworkPolicy n,
      PodCidr = map_option (load_string \<sigma> l) (PodCidr n),
      ServiceCidr = map_option (load_string \<sigma> l) (ServiceCidr n),
      DNSServiceIP = map_option (load_string \<sigma> l) (DNSServiceIP n),
      LoadBalancerSku = LoadBalancerSku n\<rparr>"

definition read_properties :: "'c state \<Rightarrow> locals \<Rightarrow> resource" where
  "read_properties \<sigma> l =
     (let m = properties l in
      \<lparr>Identity_Type = Identity_Type m,
       Location = map_option (load_string \<sigma> l) (ManagedCluster.Location m),
       DNSPrefix = map_option (load_string \<sigma> l) (DNSPrefix m),
       KubernetesVersion = map_option (load_string \<sigma> l) (KubernetesVersion m),
       LinuxProfile_AdminUsername = map_option (load_string \<sigma> l) (LinuxProfile_AdminUsername m),
       LinuxProfile_SSH_PublicKeys_KeyData =
         map (map_option (load_string \<sigma> l)) (LinuxProfile_SSH_PublicKeys_KeyData m),
       ServicePrincipalProfile_ClientID =
         map_option (load_string \<sigma> l) (ServicePrincipalProfile_ClientID m),
       AgentPoolProfiles = map (read_profile \<sigma> l) (AgentPoolProfiles m),
       NetworkProfile = read_NetworkProfile \<sigma> l (NetworkProfile m)\<rparr>)"

subsection \<open>Get and GetCredentials (lines 82 to 94)\<close>

text \<open>
  Get returns \<^verbatim>\<open>(interface{}, error)\<close>: \<open>None\<close> is the \<^verbatim>\<open>nil\<close> interface. With a \<^verbatim>\<open>nil\<close>
  pointer of type \<^verbatim>\<open>*Spec\<close> the type assertion holds and the arguments of the client call
  (fields of the specification) are evaluated first: a panic before the call.
\<close>

definition Get ::
  "'c Service \<Rightarrow> iface \<Rightarrow> 'c state \<Rightarrow> (resource option \<times> error option) outcome \<times> 'c state" where
  "Get s spec \<sigma> =
     (case spec of
        ptr_Spec p \<Rightarrow>
          (case p of
             None \<Rightarrow> (Panicked NilPointerDereference, \<sigma>)
           | Some a \<Rightarrow>
               (case call_Get s (ResourceGroup (heap \<sigma> a)) (Spec.Name (heap \<sigma> a)) \<sigma> of
                  ((r, err), \<sigma>') \<Rightarrow> (Returned (Some r, err), \<sigma>')))
      | _ \<Rightarrow> (Returned (None, Some (errors_New ''expected managed cluster specification'')), \<sigma>))"

definition GetCredentials ::
  "'c Service \<Rightarrow> string \<Rightarrow> string \<Rightarrow> 'c state \<Rightarrow> (byte list \<times> error option) outcome \<times> 'c state" where
  "GetCredentials s grp name \<sigma> =
     (case call_GetCredentials s grp name \<sigma> of (r, \<sigma>') \<Rightarrow> (Returned r, \<sigma>'))"

subsection \<open>Reconcile (lines 96 to 187)\<close>

text \<open>Lines 103 to 130: the resource with its fixed fields and the two defaults.\<close>

definition new_properties :: "addr \<Rightarrow> (string_ptr, int32_ptr) ManagedCluster" where
  "new_properties a =
     \<lparr>Identity_Type = SystemAssigned,
      Location = Some (addr_Spec_Location a),
      DNSPrefix = Some (addr_Spec_Name a),
      KubernetesVersion = Some (addr_Spec_Version a),
      LinuxProfile_AdminUsername = Some addr_defaultUser,
      LinuxProfile_SSH_PublicKeys_KeyData = [Some (addr_Spec_SSHPublicKey a)],
      ServicePrincipalProfile_ClientID = Some addr_managedIdentity,
      AgentPoolProfiles = [],
      NetworkProfile =
        \<lparr>NetworkProfileType.NetworkPlugin = Azure,
         NetworkPolicy = [],
         PodCidr = None,
         ServiceCidr = None,
         DNSServiceIP = None,
         LoadBalancerSku = Standard\<rparr>\<rparr>"

definition update_NetworkProfile ::
  "(string_ptr NetworkProfileType \<Rightarrow> string_ptr NetworkProfileType) \<Rightarrow> locals \<Rightarrow> locals" where
  "update_NetworkProfile f l =
     l\<lparr>properties := (properties l)\<lparr>NetworkProfile := f (NetworkProfile (properties l))\<rparr>\<rparr>"

text \<open>Lines 132 to 134.\<close>

definition set_NetworkPlugin :: "Spec \<Rightarrow> locals \<Rightarrow> locals" where
  "set_NetworkPlugin sp l =
     (case Spec.NetworkPlugin sp of
        None \<Rightarrow> l
      | Some v \<Rightarrow> update_NetworkProfile (\<lambda>n. n\<lparr>NetworkProfileType.NetworkPlugin := v\<rparr>) l)"

text \<open>Lines 136 to 138.\<close>

definition set_PodCidr :: "addr \<Rightarrow> Spec \<Rightarrow> locals \<Rightarrow> locals" where
  "set_PodCidr a sp l =
     (if PodCIDR sp = [] then l
      else update_NetworkProfile (\<lambda>n. n\<lparr>PodCidr := Some (addr_Spec_PodCIDR a)\<rparr>) l)"

text \<open>
  Lines 140 to 154. \<^verbatim>\<open>ip[15] = byte(10)\<close> writes into the address that ParseCIDR returned
  (always 16 bytes long, lemma \<open>ParseCIDR_length\<close> below); the network it returned is
  dropped.
\<close>

definition set_ServiceCidr :: "addr \<Rightarrow> Spec \<Rightarrow> locals \<Rightarrow> error + locals" where
  "set_ServiceCidr a sp l =
     (if ServiceCIDR sp = [] then Inr l
      else
        (let l1 = update_NetworkProfile (\<lambda>n. n\<lparr>ServiceCidr := Some (addr_Spec_ServiceCIDR a)\<rparr>) l
         in case ParseCIDR (ServiceCIDR sp) of
              Inl err \<Rightarrow> Inl (Errorf_w ''failed to parse service cidr: '' err)
            | Inr (ip, n) \<Rightarrow>
                Inr (update_NetworkProfile (\<lambda>n. n\<lparr>DNSServiceIP := Some addr_dnsIP\<rparr>)
                       (l1\<lparr>dnsIP := IP_String (ip[15 := 10])\<rparr>))))"

text \<open>Lines 156 to 164. The message of line 162, with its single quotes.\<close>

definition invalid_network_policy :: "string \<Rightarrow> string" where
  "invalid_network_policy p =
     ''invalid network policy: '' @ [CHR 0x27] @ p @ [CHR 0x27] @ ''. Allowed options are ''
       @ [CHR 0x27] @ ''calico'' @ [CHR 0x27] @ '' and '' @ [CHR 0x27] @ ''azure'' @ [CHR 0x27]"

definition set_NetworkPolicy :: "Spec \<Rightarrow> locals \<Rightarrow> error + locals" where
  "set_NetworkPolicy sp l =
     (case Spec.NetworkPolicy sp of
        None \<Rightarrow> Inr l
      | Some p \<Rightarrow>
          if EqualFold p ''Azure'' then
            Inr (update_NetworkProfile (\<lambda>n. n\<lparr>NetworkPolicy := NetworkPolicyAzure\<rparr>) l)
          else if EqualFold p ''Calico'' then
            Inr (update_NetworkProfile (\<lambda>n. n\<lparr>NetworkPolicy := NetworkPolicyCalico\<rparr>) l)
          else Inl (errorString (invalid_network_policy p)))"

text \<open>Lines 166 to 168.\<close>

definition set_LoadBalancerSku :: "Spec \<Rightarrow> locals \<Rightarrow> locals" where
  "set_LoadBalancerSku sp l =
     (case LoadBalancerSKU sp of
        None \<Rightarrow> l
      | Some v \<Rightarrow> update_NetworkProfile (\<lambda>n. n\<lparr>LoadBalancerSku := v\<rparr>) l)"

text \<open>
  Lines 170 to 179: each round assigns the next element to the loop variable \<^verbatim>\<open>pool\<close>,
  then appends a profile that holds the addresses of three fields of \<^verbatim>\<open>pool\<close> and a copy
  of the fourth.
\<close>

fun range_AgentPools :: "PoolSpec list \<Rightarrow> locals \<Rightarrow> locals" where
  "range_AgentPools [] l = l"
| "range_AgentPools (x # xs) l =
     (let l1 = l\<lparr>pool := x\<rparr>;
          profile =
            \<lparr>ManagedClusterAgentPoolProfile.Name = Some addr_pool_Name,
             Count = Some addr_pool_Replicas,
             VMSize = SKU (pool l1),
             OsDiskSizeGB = Some addr_pool_OSDiskSizeGB,
             Type = VirtualMachineScaleSets\<rparr>
      in range_AgentPools xs
           (l1\<lparr>properties :=
                 (properties l1)\<lparr>AgentPoolProfiles := AgentPoolProfiles (properties l1) @ [profile]\<rparr>\<rparr>))"

text \<open>
  Lines 103 to 179 together: the variables of Reconcile when it reaches the call of the
  client, or the error it returns before.
\<close>

definition derive_properties :: "addr \<Rightarrow> Spec \<Rightarrow> error + locals" where
  "derive_properties a sp =
     (let l0 = \<lparr>pool = \<lparr>PoolSpec.Name = [], SKU = [], Replicas = 0, OSDiskSizeGB = 0\<rparr>,
                dnsIP = [], properties = new_properties a\<rparr>
      in case set_ServiceCidr a sp (set_PodCidr a sp (set_NetworkPlugin sp l0)) of
           Inl err \<Rightarrow> Inl err
         | Inr l1 \<Rightarrow>
             (case set_NetworkPolicy sp l1 of
                Inl err \<Rightarrow> Inl err
              | Inr l2 \<Rightarrow> Inr (range_AgentPools (AgentPools sp) (set_LoadBalancerSku sp l2))))"

text \<open>
  The method. \<open>gosyntax\<close> is what the verb \<^verbatim>\<open>%#+v\<close> prints for the client's error (its Go
  syntax, with addresses; not modelled). Line 107 takes the address of a field of the
  specification: with a \<^verbatim>\<open>nil\<close> pointer of type \<^verbatim>\<open>*Spec\<close> that is a panic.
\<close>

definition Reconcile ::
  "(error \<Rightarrow> string) \<Rightarrow> 'c Service \<Rightarrow> iface \<Rightarrow> 'c state \<Rightarrow> error option outcome \<times> 'c state" where
  "Reconcile gosyntax s spec \<sigma> =
     (case spec of
        ptr_Spec p \<Rightarrow>
          (case p of
             None \<Rightarrow> (Panicked NilPointerDereference, \<sigma>)
           | Some a \<Rightarrow>
               (case derive_properties a (heap \<sigma> a) of
                  Inl err \<Rightarrow> (Returned (Some err), \<sigma>)
                | Inr l \<Rightarrow>
                    (case call_CreateOrUpdate s (ResourceGroup (heap \<sigma> a)) (Spec.Name (heap \<sigma> a))
                            (read_properties \<sigma> l) \<sigma> of
                       (None, \<sigma>') \<Rightarrow> (Returned None, \<sigma>')
                     | (Some err, \<sigma>') \<Rightarrow>
                         (Returned (Some (errorString
                            (''failed to create or update managed cluster, '' @ gosyntax err))),
                          \<sigma>'))))
      | _ \<Rightarrow> (Returned (Some (errors_New ''expected managed cluster specification'')), \<sigma>))"

subsection \<open>Delete (lines 189 to 208)\<close>

text \<open>
  \<open>ResourceNotFound\<close> is \<^verbatim>\<open>azure.ResourceNotFound\<close> of the package \<^verbatim>\<open>cloud\<close>, whose source is
  not part of this development: the test that tells the provider's "not found" error
  from its other errors. Line 196 evaluates \<^verbatim>\<open>managedClusterSpec.Name\<close> for the log line
  before the client is called (a panic for a \<^verbatim>\<open>nil\<close> pointer); the log lines themselves
  are left out.
\<close>

definition Delete ::
  "(error \<Rightarrow> bool) \<Rightarrow> 'c Service \<Rightarrow> iface \<Rightarrow> 'c state \<Rightarrow> error option outcome \<times> 'c state" where
  "Delete ResourceNotFound s spec \<sigma> =
     (case spec of
        ptr_Spec p \<Rightarrow>
          (case p of
             None \<Rightarrow> (Panicked NilPointerDereference, \<sigma>)
           | Some a \<Rightarrow>
               (case call_Delete s (ResourceGroup (heap \<sigma> a)) (Spec.Name (heap \<sigma> a)) \<sigma> of
                  (None, \<sigma>') \<Rightarrow> (Returned None, \<sigma>')
                | (Some err, \<sigma>') \<Rightarrow>
                    if ResourceNotFound err then (Returned None, \<sigma>')
                    else
                      (Returned (Some (Wrapf err
                         (''failed to delete managed cluster '' @ Spec.Name (heap \<sigma>' a)
                            @ '' in resource group '' @ ResourceGroup (heap \<sigma>' a)))), \<sigma>')))
      | _ \<Rightarrow> (Returned (Some (errors_New ''expected managed cluster specification'')), \<sigma>))"

subsection \<open>Test doubles and sample values\<close>

text \<open>
  A provider client that answers every call with the same error (\<open>None\<close>: no error),
  a memory that holds one specification at every address, and sample specifications.
\<close>

definition empty_resource :: resource where
  "empty_resource =
     \<lparr>Identity_Type = [], Location = None, DNSPrefix = None, KubernetesVersion = None,
      LinuxProfile_AdminUsername = None, LinuxProfile_SSH_PublicKeys_KeyData = [],
      ServicePrincipalProfile_ClientID = None, AgentPoolProfiles = [],
      NetworkProfile =
        \<lparr>NetworkProfileType.NetworkPlugin = [], NetworkPolicy = [], PodCidr = None,
         ServiceCidr = None, DNSServiceIP = None, LoadBalancerSku = []\<rparr>\<rparr>"

definition stub_service :: "error option \<Rightarrow> unit Service" where
  "stub_service e =
     \<lparr>Client =
        \<lparr>Client.Get = (\<lambda>c rg name. ((empty_resource, e), c)),
         Client.GetCredentials = (\<lambda>c rg name. (([], e), c)),
         Client.CreateOrUpdate = (\<lambda>c rg name res. (e, c)),
         Client.Delete = (\<lambda>c rg name. (e, c))\<rparr>\<rparr>"

definition memory_of :: "Spec \<Rightarrow> unit state" where
  "memory_of sp =
     \<lparr>heap = (\<lambda>a. sp), defaultUser = ''azureuser'', managedIdentity = ''msi'',
      client = (), calls = []\<rparr>"

definition sample_spec :: Spec where
  "sample_spec =
     \<lparr>Spec.Name = ''c1'', ResourceGroup = ''rg1'', Spec.Location = ''westus2'',
      Tags = Map.empty, Version = ''1.17.4'', LoadBalancerSKU = None,
      Spec.NetworkPlugin = None, Spec.NetworkPolicy = None, SSHPublicKey = ''ssh-rsa AAAA'',
      AgentPools = [], PodCIDR = [], ServiceCIDR = []\<rparr>"

text \<open>What the client reads when Reconcile submits \<open>sample_spec\<close>.\<close>

definition sample_resource :: resource where
  "sample_resource =
     \<lparr>Identity_Type = ''SystemAssigned'', Location = Some ''westus2'', DNSPrefix = Some ''c1'',
      KubernetesVersion = Some ''1.17.4'', LinuxProfile_AdminUsername = Some ''azureuser'',
      LinuxProfile_SSH_PublicKeys_KeyData = [Some ''ssh-rsa AAAA''],
      ServicePrincipalProfile_ClientID = Some ''msi'', AgentPoolProfiles = [],
      NetworkProfile =
        \<lparr>NetworkProfileType.NetworkPlugin = ''azure'', NetworkPolicy = [], PodCidr = None,
         ServiceCidr = None, DNSServiceIP = None, LoadBalancerSku = ''standard''\<rparr>\<rparr>"

definition pool_a :: PoolSpec where
  "pool_a = \<lparr>PoolSpec.Name = ''pool-a'', SKU = ''Standard_D2s_v3'', Replicas = 1, OSDiskSizeGB = 30\<rparr>"

definition pool_b :: PoolSpec where
  "pool_b = \<lparr>PoolSpec.Name = ''pool-b'', SKU = ''Standard_D4s_v3'', Replicas = 3, OSDiskSizeGB = 100\<rparr>"

definition show_error :: "error \<Rightarrow> string" where
  "show_error e = ''&errors.errorString{s:'' @ Error e @ ''}''"

section \<open>Properties\<close>

subsection \<open>The library functions\<close>

lemma HasPrefix_append: "HasPrefix (sub @ ys) sub"
  by (induction sub) auto

lemma Contains_prefix: "Contains (sub @ ys) sub"
  by (cases "sub @ ys") (use HasPrefix_append [of sub ys] in auto)

lemma Contains_append: "Contains (xs @ sub @ ys) sub"
  by (induction xs) (auto simp: Contains_prefix)

lemma parseIPv4_length: "parseIPv4 s = Some ip \<Longrightarrow> length ip = 16"
  by (auto simp: parseIPv4_def IPv4_def v4InV6Prefix_def split: option.splits if_splits)

lemma parseIPv6_loop_length:
  "parseIPv6_loop k i s ip e = Some (i', s', ip', e') \<Longrightarrow> length ip' = length ip"
proof (induction k arbitrary: i s ip e)
  case 0
  then show ?case by simp
next
  case (Suc k)
  from Suc.prems show ?case
    by (auto simp: Let_def split: if_splits option.splits prod.splits dest!: Suc.IH)
qed

lemma expand_move_length: "length (expand_move k e n ip) = length ip"
  by (induction k arbitrary: ip) simp_all

lemma expand_zero_length: "length (expand_zero k e ip) = length ip"
  by (induction k arbitrary: ip) simp_all

lemma parseIPv6_length: "parseIPv6 s = Some ip \<Longrightarrow> length ip = 16"
  by (auto simp: parseIPv6_def Let_def IPv6len_def expand_move_length expand_zero_length
      split: if_splits option.splits prod.splits dest!: parseIPv6_loop_length)

lemma ParseCIDR_length: "ParseCIDR s = Inr (ip, n) \<Longrightarrow> length ip = 16"
  by (auto simp: ParseCIDR_def Let_def split: option.splits prod.splits if_splits
      dest: parseIPv4_length parseIPv6_length)

text \<open>
  The loops over the 16 bytes of an address are written with a count of rounds, eight.
  That count is no limit: each round moves on by two bytes or more, and more rounds
  give the same result.
\<close>

lemma parseIPv6_loop_rounds:
  "IPv6len \<le> i + 2 * k \<Longrightarrow> parseIPv6_loop (k + m) i s ip e = parseIPv6_loop k i s ip e"
proof (induction k arbitrary: i s ip e)
  case 0
  then show ?case by (cases m) simp_all
next
  case (Suc k)
  have "parseIPv6_loop (k + m) i' s' ip' e' = parseIPv6_loop k i' s' ip' e'"
    if "Suc (Suc i) \<le> i'" for i' s' ip' e'
    using Suc.prems that by (intro Suc.IH) simp
  then show ?case
    by (simp add: Let_def split: prod.splits option.splits)
qed

lemma zero_run_rounds:
  "IPv6len \<le> j + 2 * k \<Longrightarrow> zero_run (k + m) j p = zero_run k j p"
proof (induction k arbitrary: j)
  case 0
  then show ?case by (cases m) simp_all
next
  case (Suc k)
  have "zero_run (k + m) (Suc (Suc j)) p = zero_run k (Suc (Suc j)) p"
    using Suc.prems by (intro Suc.IH) simp
  then show ?case by simp
qed

lemma zero_run_ge: "j \<le> zero_run k j p"
proof (induction k arbitrary: j)
  case 0
  then show ?case by simp
next
  case (Suc k)
  from Suc.IH [of "Suc (Suc j)"] show ?case by simp
qed

lemma longest_zero_run_rounds:
  "IPv6len \<le> i + 2 * k \<Longrightarrow>
   longest_zero_run (k + m) i p e0 e1 = longest_zero_run k i p e0 e1"
proof (induction k arbitrary: i e0 e1)
  case 0
  then show ?case by (cases m) simp_all
next
  case (Suc k)
  have 1: "longest_zero_run (k + m) (Suc (Suc i)) p a b = longest_zero_run k (Suc (Suc i)) p a b"
    for a b
    using Suc.prems by (intro Suc.IH) simp
  have 2: "longest_zero_run (k + m) (Suc (Suc (zero_run 8 i p))) p a b =
           longest_zero_run k (Suc (Suc (zero_run 8 i p))) p a b" for a b
    using Suc.prems zero_run_ge [of i 8 p] by (intro Suc.IH) simp
  show ?case using 1 2 by (simp add: Let_def)
qed

lemma print_groups_rounds:
  "IPv6len \<le> i + 2 * k \<Longrightarrow> e0 < e1 \<or> e0 < 0 \<Longrightarrow>
   print_groups (k + m) i p e0 e1 b = print_groups k i p e0 e1 b"
proof (induction k arbitrary: i b)
  case 0
  then show ?case by (cases m) simp_all
next
  case (Suc k)
  have "print_groups (k + m) i' p e0 e1 b' = print_groups k i' p e0 e1 b'"
    if "Suc (Suc i) \<le> i'" for i' b'
    using Suc.prems that by (intro Suc.IH) simp_all
  moreover have "Suc (Suc i) \<le> Suc (Suc (nat e1))" if "int i = e0"
    using Suc.prems(2) that by auto
  ultimately show ?case
    by (simp add: Let_def)
qed

lemma EqualFold_Azure: "EqualFold p ''Azure'' = EqualFold p ''azure''"
proof -
  have "map toLower ''Azure'' = map toLower ''azure''" by code_simp
  then show ?thesis by (simp only: EqualFold_def)
qed

lemma EqualFold_Calico: "EqualFold p ''Calico'' = EqualFold p ''calico''"
proof -
  have "map toLower ''Calico'' = map toLower ''calico''" by code_simp
  then show ?thesis by (simp only: EqualFold_def)
qed

lemma not_Azure_and_Calico: "EqualFold p ''Azure'' \<Longrightarrow> \<not> EqualFold p ''Calico''"
proof -
  have "map toLower ''Azure'' \<noteq> map toLower ''Calico''" by code_simp
  then show "EqualFold p ''Azure'' \<Longrightarrow> \<not> EqualFold p ''Calico''"
    by (auto simp only: EqualFold_def)
qed

subsection \<open>What Reconcile derives, field by field\<close>

lemma range_AgentPools_NetworkProfile:
  "NetworkProfile (properties (range_AgentPools ps l)) = NetworkProfile (properties l)"
  by (induction ps arbitrary: l) (simp_all add: Let_def)

lemma range_AgentPools_dnsIP: "dnsIP (range_AgentPools ps l) = dnsIP l"
  by (induction ps arbitrary: l) (simp_all add: Let_def)

lemmas derive_defs =
  derive_properties_def set_ServiceCidr_def set_PodCidr_def set_NetworkPlugin_def
  set_NetworkPolicy_def set_LoadBalancerSku_def update_NetworkProfile_def new_properties_def
  range_AgentPools_NetworkProfile range_AgentPools_dnsIP Let_def



lemma derive_NetworkPolicy:
  "derive_properties a sp = Inr l \<Longrightarrow>
   NetworkProfileType.NetworkPolicy (NetworkProfile (properties l)) =
     (case Spec.NetworkPolicy sp of
        None \<Rightarrow> []
      | Some p \<Rightarrow> if EqualFold p ''Azure'' then NetworkPolicyAzure else NetworkPolicyCalico)"
  by (auto simp: derive_defs split: sum.splits option.splits if_splits)

lemma derive_PodCidr:
  "derive_properties a sp = Inr l \<Longrightarrow>
   PodCidr (NetworkProfile (properties l)) =
     (if PodCIDR sp = [] then None else Some (addr_Spec_PodCIDR a))"
  by (auto simp: derive_defs split: sum.splits option.splits if_splits)

lemma derive_ServiceCidr:
  "derive_properties a sp = Inr l \<Longrightarrow>
   ServiceCidr (NetworkProfile (properties l)) =
     (if ServiceCIDR sp = [] then None else Some (addr_Spec_ServiceCIDR a))"
  by (auto simp: derive_defs split: sum.splits option.splits if_splits)

lemma derive_DNSServiceIP:
  "derive_properties a sp = Inr l \<Longrightarrow>
   DNSServiceIP (NetworkProfile (properties l)) =
     (if ServiceCIDR sp = [] then None else Some addr_dnsIP)"
  by (auto simp: derive_defs split: sum.splits option.splits if_splits)

lemma derive_dnsIP:
  "derive_properties a sp = Inr l \<Longrightarrow> ServiceCIDR sp \<noteq> [] \<Longrightarrow>
   \<exists>ip n. ParseCIDR (ServiceCIDR sp) = Inr (ip, n) \<and> dnsIP l = IP_String (ip[15 := 10])"
  by (auto simp: derive_defs split: sum.splits option.splits if_splits)

lemma derive_Inl:
  "derive_properties a sp = Inl err \<Longrightarrow>
   (ServiceCIDR sp \<noteq> [] \<and>
      (\<exists>e. ParseCIDR (ServiceCIDR sp) = Inl e \<and> err = Errorf_w ''failed to parse service cidr: '' e))
   \<or> (\<exists>p. Spec.NetworkPolicy sp = Some p \<and> \<not> EqualFold p ''Azure'' \<and> \<not> EqualFold p ''Calico''
         \<and> err = errorString (invalid_network_policy p))"
  by (auto simp: derive_defs split: sum.splits option.splits if_splits)

lemma derive_invalid_cidr:
  "ServiceCIDR sp \<noteq> [] \<Longrightarrow> ParseCIDR (ServiceCIDR sp) = Inl e \<Longrightarrow>
   derive_properties a sp = Inl (Errorf_w ''failed to parse service cidr: '' e)"
  by (simp add: derive_defs)

lemma derive_invalid_policy:
  "ServiceCIDR sp = [] \<or> ParseCIDR (ServiceCIDR sp) = Inr (ip, n) \<Longrightarrow>
   Spec.NetworkPolicy sp = Some p \<Longrightarrow> \<not> EqualFold p ''Azure'' \<Longrightarrow> \<not> EqualFold p ''Calico'' \<Longrightarrow>
   derive_properties a sp = Inl (errorString (invalid_network_policy p))"
  by (auto simp: derive_defs)

lemma derive_valid:
  "ServiceCIDR sp = [] \<or> ParseCIDR (ServiceCIDR sp) = Inr (ip, n) \<Longrightarrow>
   Spec.NetworkPolicy sp = None \<or> EqualFold (the (Spec.NetworkPolicy sp)) ''Azure''
     \<or> EqualFold (the (Spec.NetworkPolicy sp)) ''Calico'' \<Longrightarrow>
   \<exists>l. derive_properties a sp = Inr l"
  by (auto simp: derive_defs split: option.splits)

lemma Reconcile_calls:
  "calls (snd (Reconcile g s (ptr_Spec (Some a)) \<sigma>)) =
     calls \<sigma> @
       (case derive_properties a (heap \<sigma> a) of
          Inl err \<Rightarrow> []
        | Inr l \<Rightarrow>
            [Call_CreateOrUpdate (ResourceGroup (heap \<sigma> a)) (Spec.Name (heap \<sigma> a))
               (read_properties \<sigma> l)])"
  by (auto simp: Reconcile_def call_CreateOrUpdate_def split: sum.splits prod.splits option.splits)

lemma Reconcile_submitted:
  assumes "calls (snd (Reconcile g s (ptr_Spec (Some a)) \<sigma>)) = calls \<sigma> @ [Call_CreateOrUpdate rg name r]"
  obtains l where "derive_properties a (heap \<sigma> a) = Inr l" and "r = read_properties \<sigma> l"
    and "rg = ResourceGroup (heap \<sigma> a)" and "name = Spec.Name (heap \<sigma> a)"
  using assms unfolding Reconcile_calls by (auto split: sum.splits)

lemma Reconcile_Inl:
  "derive_properties a (heap \<sigma> a) = Inl err \<Longrightarrow>
   Reconcile g s (ptr_Spec (Some a)) \<sigma> = (Returned (Some err), \<sigma>)"
  by (simp add: Reconcile_def)

lemma read_NetworkProfile_simps:
  "NetworkProfileType.NetworkPlugin (NetworkProfile (read_properties \<sigma> l)) =
     NetworkProfileType.NetworkPlugin (NetworkProfile (properties l))"
  "NetworkProfileType.NetworkPolicy (NetworkProfile (read_properties \<sigma> l)) =
     NetworkProfileType.NetworkPolicy (NetworkProfile (properties l))"
  "LoadBalancerSku (NetworkProfile (read_properties \<sigma> l)) =
     LoadBalancerSku (NetworkProfile (properties l))"
  "PodCidr (NetworkProfile (read_properties \<sigma> l)) =
     map_option (load_string \<sigma> l) (PodCidr (NetworkProfile (properties l)))"
  "ServiceCidr (NetworkProfile (read_properties \<sigma> l)) =
     map_option (load_string \<sigma> l) (ServiceCidr (NetworkProfile (properties l)))"
  "DNSServiceIP (NetworkProfile (read_properties \<sigma> l)) =
     map_option (load_string \<sigma> l) (DNSServiceIP (NetworkProfile (properties l)))"
  by (simp_all add: read_properties_def read_NetworkProfile_def Let_def)

lemma Reconcile_calls_Inr:
  "derive_properties a (heap \<sigma> a) = Inr l \<Longrightarrow>
   calls (snd (Reconcile g s (ptr_Spec (Some a)) \<sigma>)) =
     calls \<sigma> @ [Call_CreateOrUpdate (ResourceGroup (heap \<sigma> a)) (Spec.Name (heap \<sigma> a))
                  (read_properties \<sigma> l)]"
  by (simp add: Reconcile_calls)

lemma invalid_network_policy_names_both:
  "Contains (invalid_network_policy p) ''calico'' \<and> Contains (invalid_network_policy p) ''azure''"
proof
  have "invalid_network_policy p =
      (''invalid network policy: '' @ [CHR 0x27] @ p @ [CHR 0x27] @ ''. Allowed options are ''
         @ [CHR 0x27]) @ ''calico'' @ ([CHR 0x27] @ '' and '' @ [CHR 0x27] @ ''azure'' @ [CHR 0x27])"
    by (simp add: invalid_network_policy_def)
  then show "Contains (invalid_network_policy p) ''calico''"
    by (simp only: Contains_append)
  have "invalid_network_policy p =
      (''invalid network policy: '' @ [CHR 0x27] @ p @ [CHR 0x27] @ ''. Allowed options are ''
         @ [CHR 0x27] @ ''calico'' @ [CHR 0x27] @ '' and '' @ [CHR 0x27]) @ ''azure'' @ [CHR 0x27]"
    by (simp add: invalid_network_policy_def)
  then show "Contains (invalid_network_policy p) ''azure''"
    by (simp only: Contains_append)
qed

lemma range_AgentPools_profiles:
  "AgentPoolProfiles (properties (range_AgentPools ps l)) =
     AgentPoolProfiles (properties l) @
       map (\<lambda>x. \<lparr>ManagedClusterAgentPoolProfile.Name = Some addr_pool_Name,
                  Count = Some addr_pool_Replicas, VMSize = SKU x,
                  OsDiskSizeGB = Some addr_pool_OSDiskSizeGB, Type = VirtualMachineScaleSets\<rparr>) ps"
  by (induction ps arbitrary: l) (simp_all add: Let_def)

lemma range_AgentPools_pool:
  "pool (range_AgentPools ps l) = (if ps = [] then pool l else last ps)"
  by (induction ps arbitrary: l) (simp_all add: Let_def)

lemma derive_AgentPoolProfiles:
  assumes "derive_properties a sp = Inr l"
  shows "AgentPoolProfiles (properties l) =
           map (\<lambda>x. \<lparr>ManagedClusterAgentPoolProfile.Name = Some addr_pool_Name,
                      Count = Some addr_pool_Replicas, VMSize = SKU x,
                      OsDiskSizeGB = Some addr_pool_OSDiskSizeGB, Type = VirtualMachineScaleSets\<rparr>)
             (AgentPools sp)"
    and "AgentPools sp \<noteq> [] \<Longrightarrow> pool l = last (AgentPools sp)"
  using assms
  by (auto simp: derive_properties_def set_ServiceCidr_def set_PodCidr_def set_NetworkPlugin_def
      set_NetworkPolicy_def set_LoadBalancerSku_def update_NetworkProfile_def new_properties_def
      range_AgentPools_profiles range_AgentPools_pool Let_def
      split: sum.splits option.splits if_splits)
section \<open>The claims\<close>

text \<open>
  In the theorems below \<open>\<sigma>\<close> is the state before the call, \<open>a\<close> the address that the
  \<^verbatim>\<open>*Spec\<close> holds and \<open>heap \<sigma> a\<close> the specification there. "Reconcile submits \<open>r\<close>" is
  written \<open>calls (snd (Reconcile \<dots>)) = calls \<sigma> @ [Call_CreateOrUpdate rg name r]\<close>: the
  one call that Reconcile adds is \<^verbatim>\<open>CreateOrUpdate\<close> with the resource \<open>r\<close>, as the client
  reads it.
\<close>

subsection \<open>C1: the service CIDR and the DNS service IP\<close>

text \<open>
  C1 as stated fails: the DNS service IP is not the first address of the parsed network
  with its last byte set to 10. For \<^verbatim>\<open>ServiceCIDR = "10.96.5.7/12"\<close> Reconcile submits the DNS
  service IP "10.96.5.10", while the network is 10.96.0.0/12 and its first address with
  the last byte set to 10 is "10.96.0.10".
\<close>

theorem dns_service_ip_keeps_host_bits:
  "map (DNSServiceIP \<circ> NetworkProfile)
     (submitted (calls (snd (Reconcile show_error (stub_service None) (ptr_Spec (Some 0))
        (memory_of (sample_spec\<lparr>ServiceCIDR := ''10.96.5.7/12''\<rparr>)))))) = [Some ''10.96.5.10'']
   \<and> ParseCIDR ''10.96.5.7/12'' =
       Inr (IPv4 10 96 5 7, \<lparr>IP = [10, 96, 0, 0], Mask = [255, 240, 0, 0]\<rparr>)
   \<and> IP_String [10, 96, 0, 0] = ''10.96.0.0''
   \<and> IP_String ([10, 96, 0, 0][3 := 10]) = ''10.96.0.10''"
  by code_simp

text \<open>
  C1, amended. Whenever Reconcile submits a resource \<open>r\<close>: with an empty \<^verbatim>\<open>ServiceCIDR\<close>,
  \<open>r\<close> has neither a service CIDR nor a DNS service IP; with a non-empty one, \<open>r\<close> carries
  the \<^verbatim>\<open>ServiceCIDR\<close> unchanged, \<^verbatim>\<open>net.ParseCIDR\<close> accepted it, and the DNS service IP is
  the address written in it (the first result of ParseCIDR, 16 bytes, host bits kept)
  with byte 15 set to 10, printed. For "10.96.0.0/12" that is "10.96.0.10", an address
  of that network whose last byte is 10.
\<close>

theorem dns_service_ip_from_written_address:
  assumes "calls (snd (Reconcile g s (ptr_Spec (Some a)) \<sigma>)) =
             calls \<sigma> @ [Call_CreateOrUpdate rg name r]"
  shows "(if ServiceCIDR (heap \<sigma> a) = []
          then ServiceCidr (NetworkProfile r) = None \<and> DNSServiceIP (NetworkProfile r) = None
          else ServiceCidr (NetworkProfile r) = Some (ServiceCIDR (heap \<sigma> a))
             \<and> (\<exists>ip n. ParseCIDR (ServiceCIDR (heap \<sigma> a)) = Inr (ip, n)
                  \<and> length ip = 16
                  \<and> DNSServiceIP (NetworkProfile r) = Some (IP_String (ip[15 := 10]))))
         \<and> (ServiceCIDR (heap \<sigma> a) = ''10.96.0.0/12''
              \<longrightarrow> DNSServiceIP (NetworkProfile r) = Some ''10.96.0.10'')
         \<and> ParseCIDR ''10.96.0.0/12'' =
             Inr (IPv4 10 96 0 0, \<lparr>IP = [10, 96, 0, 0], Mask = [255, 240, 0, 0]\<rparr>)
         \<and> IP_String ((IPv4 10 96 0 0)[15 := 10]) = ''10.96.0.10''
         \<and> IPNet_Contains \<lparr>IP = [10, 96, 0, 0], Mask = [255, 240, 0, 0]\<rparr>
               ((IPv4 10 96 0 0)[15 := 10])
         \<and> last ((IPv4 10 96 0 0)[15 := 10]) = 10"
proof -
  from assms obtain l where l: "derive_properties a (heap \<sigma> a) = Inr l"
    and r: "r = read_properties \<sigma> l"
    by (rule Reconcile_submitted)
  have p: "ParseCIDR ''10.96.0.0/12'' =
      Inr (IPv4 10 96 0 0, \<lparr>IP = [10, 96, 0, 0], Mask = [255, 240, 0, 0]\<rparr>)"
    by code_simp
  have s: "IP_String ((IPv4 10 96 0 0)[15 := 10]) = ''10.96.0.10''"
    by code_simp
  have c: "IPNet_Contains \<lparr>IP = [10, 96, 0, 0], Mask = [255, 240, 0, 0]\<rparr> ((IPv4 10 96 0 0)[15 := 10])"
    by code_simp
  have e: "last ((IPv4 10 96 0 0)[15 := 10]) = 10"
    by code_simp
  have 1: "ServiceCIDR (heap \<sigma> a) = [] \<Longrightarrow>
      ServiceCidr (NetworkProfile r) = None \<and> DNSServiceIP (NetworkProfile r) = None"
    unfolding r read_NetworkProfile_simps
    using derive_ServiceCidr [OF l] derive_DNSServiceIP [OF l] by simp
  have 2: "\<exists>ip n. ParseCIDR (ServiceCIDR (heap \<sigma> a)) = Inr (ip, n) \<and> length ip = 16
          \<and> DNSServiceIP (NetworkProfile r) = Some (IP_String (ip[15 := 10]))"
    and 3: "ServiceCidr (NetworkProfile r) = Some (ServiceCIDR (heap \<sigma> a))"
    if ne: "ServiceCIDR (heap \<sigma> a) \<noteq> []"
  proof -
    from derive_dnsIP [OF l ne] obtain ip n
      where pc: "ParseCIDR (ServiceCIDR (heap \<sigma> a)) = Inr (ip, n)"
        and d: "dnsIP l = IP_String (ip[15 := 10])"
      by blast
    have "DNSServiceIP (NetworkProfile r) = Some (IP_String (ip[15 := 10]))"
      unfolding r read_NetworkProfile_simps using derive_DNSServiceIP [OF l] ne d by simp
    with pc ParseCIDR_length [OF pc]
    show "\<exists>ip n. ParseCIDR (ServiceCIDR (heap \<sigma> a)) = Inr (ip, n) \<and> length ip = 16
          \<and> DNSServiceIP (NetworkProfile r) = Some (IP_String (ip[15 := 10]))"
      by blast
    show "ServiceCidr (NetworkProfile r) = Some (ServiceCIDR (heap \<sigma> a))"
      unfolding r read_NetworkProfile_simps using derive_ServiceCidr [OF l] ne by simp
  qed
  have 4: "DNSServiceIP (NetworkProfile r) = Some ''10.96.0.10''"
    if eq: "ServiceCIDR (heap \<sigma> a) = ''10.96.0.0/12''"
  proof -
    have "ServiceCIDR (heap \<sigma> a) \<noteq> []" using eq by simp
    from 2 [OF this] show ?thesis unfolding eq p using s by auto
  qed
  show ?thesis
  proof (intro conjI impI)
    show "if ServiceCIDR (heap \<sigma> a) = []
          then ServiceCidr (NetworkProfile r) = None \<and> DNSServiceIP (NetworkProfile r) = None
          else ServiceCidr (NetworkProfile r) = Some (ServiceCIDR (heap \<sigma> a))
             \<and> (\<exists>ip n. ParseCIDR (ServiceCIDR (heap \<sigma> a)) = Inr (ip, n)
                  \<and> length ip = 16
                  \<and> DNSServiceIP (NetworkProfile r) = Some (IP_String (ip[15 := 10])))"
      using 1 2 3 by (cases "ServiceCIDR (heap \<sigma> a) = []") simp_all
    show "DNSServiceIP (NetworkProfile r) = Some ''10.96.0.10''"
      if "ServiceCIDR (heap \<sigma> a) = ''10.96.0.0/12''"
      using 4 that by simp
  qed (rule p s c e)+
qed

text \<open>C1, a run of the amended statement: \<open>sample_spec\<close> with \<^verbatim>\<open>ServiceCIDR = "10.96.0.0/12"\<close>.\<close>

theorem dns_service_ip_from_written_address_witness:
  "calls (snd (Reconcile show_error (stub_service None) (ptr_Spec (Some 0))
      (memory_of (sample_spec\<lparr>ServiceCIDR := ''10.96.0.0/12''\<rparr>)))) =
     calls (memory_of (sample_spec\<lparr>ServiceCIDR := ''10.96.0.0/12''\<rparr>)) @
       [Call_CreateOrUpdate ''rg1'' ''c1''
          (sample_resource\<lparr>NetworkProfile := (NetworkProfile sample_resource)
             \<lparr>ServiceCidr := Some ''10.96.0.0/12'', DNSServiceIP := Some ''10.96.0.10''\<rparr>\<rparr>)]
   \<and> ServiceCIDR (heap (memory_of (sample_spec\<lparr>ServiceCIDR := ''10.96.0.0/12''\<rparr>)) 0) =
       ''10.96.0.0/12''
   \<and> DNSServiceIP (NetworkProfile (sample_resource\<lparr>NetworkProfile := (NetworkProfile sample_resource)
             \<lparr>ServiceCidr := Some ''10.96.0.0/12'', DNSServiceIP := Some ''10.96.0.10''\<rparr>\<rparr>)) =
       Some ''10.96.0.10''"
proof -
  let ?m = "memory_of (sample_spec\<lparr>ServiceCIDR := ''10.96.0.0/12''\<rparr>)"
  let ?r = "sample_resource\<lparr>NetworkProfile := (NetworkProfile sample_resource)
             \<lparr>ServiceCidr := Some ''10.96.0.0/12'', DNSServiceIP := Some ''10.96.0.10''\<rparr>\<rparr>"
  have h: "calls (snd (Reconcile show_error (stub_service None) (ptr_Spec (Some 0)) ?m)) =
     calls ?m @ [Call_CreateOrUpdate ''rg1'' ''c1'' ?r]"
    by code_simp
  have c: "ServiceCIDR (heap ?m 0) = ''10.96.0.0/12''"
    by (simp add: memory_of_def)
  with dns_service_ip_from_written_address [OF h]
  have "DNSServiceIP (NetworkProfile ?r) = Some ''10.96.0.10''"
    by (simp del: One_nat_def)
  with h c show ?thesis by blast
qed

subsection \<open>C2: deleting a cluster that is not there\<close>

text \<open>
  C2. Delete on a valid specification (a pointer to a \<^verbatim>\<open>Spec\<close>): when the client's delete
  returns an error that \<open>ResourceNotFound\<close> recognises, Delete returns \<^verbatim>\<open>nil\<close>; any other
  error of the client's delete is returned as an error (wrapped by \<^verbatim>\<open>errors.Wrapf\<close>).
\<close>

theorem delete_of_absent_resource_succeeds:
  assumes "Client.Delete (Client s) (client \<sigma>) (ResourceGroup (heap \<sigma> a)) (Spec.Name (heap \<sigma> a)) =
             (Some err, c')"
  shows "fst (Delete ResourceNotFound s (ptr_Spec (Some a)) \<sigma>) =
           (if ResourceNotFound err then Returned None
            else Returned (Some (Wrapf err
                   (''failed to delete managed cluster '' @ Spec.Name (heap \<sigma> a)
                      @ '' in resource group '' @ ResourceGroup (heap \<sigma> a)))))"
  using assms by (simp add: Delete_def call_Delete_def)

text \<open>C2, a run: the client answers "not found", which the test recognises.\<close>

theorem delete_of_absent_resource_succeeds_witness:
  "Client.Delete (Client (stub_service (Some (errorString ''not found'')))) (client (memory_of sample_spec))
      (ResourceGroup (heap (memory_of sample_spec) 0)) (Spec.Name (heap (memory_of sample_spec) 0)) =
     (Some (errorString ''not found''), ())
   \<and> fst (Delete (\<lambda>e. e = errorString ''not found'') (stub_service (Some (errorString ''not found'')))
            (ptr_Spec (Some 0)) (memory_of sample_spec)) = Returned None"
proof -
  have h: "Client.Delete (Client (stub_service (Some (errorString ''not found''))))
             (client (memory_of sample_spec))
             (ResourceGroup (heap (memory_of sample_spec) 0)) (Spec.Name (heap (memory_of sample_spec) 0)) =
           (Some (errorString ''not found''), ())"
    by (simp add: stub_service_def)
  show ?thesis
    using h delete_of_absent_resource_succeeds [OF h, of "\<lambda>e. e = errorString ''not found''"]
    by simp
qed

subsection \<open>C3: the network policy\<close>

text \<open>
  C3 as stated fails: a network policy other than "azure" and "calico" does not always
  give the error that names the two allowed values. With \<^verbatim>\<open>ServiceCIDR = "not-a-cidr"\<close> and
  \<^verbatim>\<open>NetworkPolicy = "weave"\<close> Reconcile returns the error of the service CIDR, checked
  first, whose message names neither value.
\<close>

theorem invalid_cidr_masks_invalid_policy:
  "fst (Reconcile show_error (stub_service None) (ptr_Spec (Some 0))
       (memory_of (sample_spec\<lparr>ServiceCIDR := ''not-a-cidr'', Spec.NetworkPolicy := Some ''weave''\<rparr>))) =
     Returned (Some (wrapError ''failed to parse service cidr: invalid CIDR address: not-a-cidr''
                       (ParseError ''CIDR address'' ''not-a-cidr'')))
   \<and> Error (wrapError ''failed to parse service cidr: invalid CIDR address: not-a-cidr''
              (ParseError ''CIDR address'' ''not-a-cidr'')) =
       ''failed to parse service cidr: invalid CIDR address: not-a-cidr''
   \<and> \<not> Contains ''failed to parse service cidr: invalid CIDR address: not-a-cidr'' ''calico''
   \<and> \<not> Contains ''failed to parse service cidr: invalid CIDR address: not-a-cidr'' ''azure''"
  by code_simp

text \<open>
  C3, amended: for a specification whose \<^verbatim>\<open>ServiceCIDR\<close> is empty or accepted by ParseCIDR.
  Without a network policy Reconcile submits a resource whose network policy is the
  empty string (not set). A policy equal to "azure" but for the case of its letters
  gives the policy \<open>NetworkPolicyAzure\<close>, one equal to "calico" so gives
  \<open>NetworkPolicyCalico\<close>. Any other policy makes Reconcile return the error of line
  162, whose message names both "calico" and "azure", and the client is not called.
\<close>

theorem network_policy_mapping:
  assumes cidr: "ServiceCIDR (heap \<sigma> a) = [] \<or> ParseCIDR (ServiceCIDR (heap \<sigma> a)) = Inr (ip, n)"
  shows "case Spec.NetworkPolicy (heap \<sigma> a) of
           None \<Rightarrow>
             (\<exists>r. calls (snd (Reconcile g s (ptr_Spec (Some a)) \<sigma>)) =
                     calls \<sigma> @ [Call_CreateOrUpdate (ResourceGroup (heap \<sigma> a)) (Spec.Name (heap \<sigma> a)) r]
                 \<and> NetworkProfileType.NetworkPolicy (NetworkProfile r) = [])
         | Some p \<Rightarrow>
             if EqualFold p ''azure'' then
               (\<exists>r. calls (snd (Reconcile g s (ptr_Spec (Some a)) \<sigma>)) =
                       calls \<sigma> @ [Call_CreateOrUpdate (ResourceGroup (heap \<sigma> a)) (Spec.Name (heap \<sigma> a)) r]
                   \<and> NetworkProfileType.NetworkPolicy (NetworkProfile r) = NetworkPolicyAzure)
             else if EqualFold p ''calico'' then
               (\<exists>r. calls (snd (Reconcile g s (ptr_Spec (Some a)) \<sigma>)) =
                       calls \<sigma> @ [Call_CreateOrUpdate (ResourceGroup (heap \<sigma> a)) (Spec.Name (heap \<sigma> a)) r]
                   \<and> NetworkProfileType.NetworkPolicy (NetworkProfile r) = NetworkPolicyCalico)
             else
               Reconcile g s (ptr_Spec (Some a)) \<sigma> =
                 (Returned (Some (errorString (invalid_network_policy p))), \<sigma>)
               \<and> Contains (invalid_network_policy p) ''calico''
               \<and> Contains (invalid_network_policy p) ''azure''"
proof (cases "Spec.NetworkPolicy (heap \<sigma> a)")
  case None
  with derive_valid [OF cidr, of a] obtain l where l: "derive_properties a (heap \<sigma> a) = Inr l"
    by auto
  show ?thesis
    using None Reconcile_calls_Inr [OF l, of g s] derive_NetworkPolicy [OF l]
    by (simp add: read_NetworkProfile_simps)
next
  case (Some p)
  consider (az) "EqualFold p ''Azure''"
    | (ca) "\<not> EqualFold p ''Azure''" "EqualFold p ''Calico''"
    | (bad) "\<not> EqualFold p ''Azure''" "\<not> EqualFold p ''Calico''"
    by blast
  then show ?thesis
  proof cases
    case az
    with Some derive_valid [OF cidr, of a] obtain l where l: "derive_properties a (heap \<sigma> a) = Inr l"
      by auto
    show ?thesis
      using Some az Reconcile_calls_Inr [OF l, of g s] derive_NetworkPolicy [OF l]
      by (simp add: read_NetworkProfile_simps EqualFold_Azure)
  next
    case ca
    with Some derive_valid [OF cidr, of a] obtain l where l: "derive_properties a (heap \<sigma> a) = Inr l"
      by auto
    show ?thesis
      using Some ca Reconcile_calls_Inr [OF l, of g s] derive_NetworkPolicy [OF l]
      by (simp add: read_NetworkProfile_simps EqualFold_Azure EqualFold_Calico)
  next
    case bad
    from Reconcile_Inl [OF derive_invalid_policy [OF cidr Some bad], of g s]
    show ?thesis
      using Some bad invalid_network_policy_names_both [of p]
      by (simp add: EqualFold_Azure EqualFold_Calico)
  qed
qed

text \<open>
  C3, two runs of the amended statement with an empty \<^verbatim>\<open>ServiceCIDR\<close>: the policy "weave"
  is refused, the policy "CALICO" is submitted as \<open>NetworkPolicyCalico\<close>.
\<close>

theorem network_policy_mapping_witness:
  "ServiceCIDR (heap (memory_of (sample_spec\<lparr>Spec.NetworkPolicy := Some ''weave''\<rparr>)) 0) = []
   \<and> Reconcile show_error (stub_service None) (ptr_Spec (Some 0))
         (memory_of (sample_spec\<lparr>Spec.NetworkPolicy := Some ''weave''\<rparr>)) =
       (Returned (Some (errorString (invalid_network_policy ''weave''))),
        memory_of (sample_spec\<lparr>Spec.NetworkPolicy := Some ''weave''\<rparr>))
   \<and> ServiceCIDR (heap (memory_of (sample_spec\<lparr>Spec.NetworkPolicy := Some ''CALICO''\<rparr>)) 0) = []
   \<and> (\<exists>r. calls (snd (Reconcile show_error (stub_service None) (ptr_Spec (Some 0))
               (memory_of (sample_spec\<lparr>Spec.NetworkPolicy := Some ''CALICO''\<rparr>)))) =
             [Call_CreateOrUpdate ''rg1'' ''c1'' r]
         \<and> NetworkProfileType.NetworkPolicy (NetworkProfile r) = ''calico'')"
proof -
  let ?w = "memory_of (sample_spec\<lparr>Spec.NetworkPolicy := Some ''weave''\<rparr>)"
  let ?c = "memory_of (sample_spec\<lparr>Spec.NetworkPolicy := Some ''CALICO''\<rparr>)"
  have hw: "ServiceCIDR (heap ?w 0) = []" and hc: "ServiceCIDR (heap ?c 0) = []"
    by (simp_all add: memory_of_def sample_spec_def)
  have pw: "Spec.NetworkPolicy (heap ?w 0) = Some ''weave''"
    and pc: "Spec.NetworkPolicy (heap ?c 0) = Some ''CALICO''"
    by (simp_all add: memory_of_def)
  have fw: "\<not> EqualFold ''weave'' ''azure''" "\<not> EqualFold ''weave'' ''calico''"
    and fc: "\<not> EqualFold ''CALICO'' ''azure''" "EqualFold ''CALICO'' ''calico''"
    by code_simp+
  have nc: "Spec.Name (heap ?c 0) = ''c1''" "ResourceGroup (heap ?c 0) = ''rg1''" "calls ?c = []"
    by (simp_all add: memory_of_def sample_spec_def)
  from network_policy_mapping [of ?w 0 "[]" "\<lparr>IP = [], Mask = []\<rparr>" show_error "stub_service None"] hw pw fw
  have 1: "Reconcile show_error (stub_service None) (ptr_Spec (Some 0)) ?w =
       (Returned (Some (errorString (invalid_network_policy ''weave''))), ?w)"
    by simp
  from network_policy_mapping [of ?c 0 "[]" "\<lparr>IP = [], Mask = []\<rparr>" show_error "stub_service None"] hc pc fc nc
  have 2: "\<exists>r. calls (snd (Reconcile show_error (stub_service None) (ptr_Spec (Some 0)) ?c)) =
             [Call_CreateOrUpdate ''rg1'' ''c1'' r]
         \<and> NetworkProfileType.NetworkPolicy (NetworkProfile r) = ''calico''"
    by (simp add: NetworkPolicyCalico_def)
  from hw 1 hc 2 show ?thesis by blast
qed

subsection \<open>C4: a value that is not a \<^verbatim>\<open>*Spec\<close>\<close>

text \<open>
  C4 as stated fails for GetCredentials, which takes no specification but the resource
  group and the name, two strings: it has no check of a shape to fail, and it calls the
  client with whatever it is given.
\<close>

theorem GetCredentials_has_no_shape_guard:
  "GetCredentials (stub_service None) ''rg1'' ''c1'' (memory_of sample_spec) =
     (Returned ([], None), (memory_of sample_spec)\<lparr>calls := [Call_GetCredentials ''rg1'' ''c1'']\<rparr>)"
  by (simp add: GetCredentials_def call_GetCredentials_def stub_service_def memory_of_def)

text \<open>
  C4, amended. For every value that is not of type \<^verbatim>\<open>*Spec\<close> (the \<^verbatim>\<open>nil\<close> interface, a
  \<^verbatim>\<open>Spec\<close> by value, a string, a number), the three methods that take a specification,
  Get, Reconcile and Delete, return the error "expected managed cluster specification"
  and leave the state, the list of calls included, as it was. GetCredentials takes no
  specification and checks nothing: for every resource group and name it calls the
  client's \<^verbatim>\<open>GetCredentials\<close> with them, once, and returns what the client returned.
\<close>

theorem wrong_shape_rejected_before_any_call:
  assumes "\<And>p. spec \<noteq> ptr_Spec p"
  shows "Get s spec \<sigma> =
           (Returned (None, Some (errorString ''expected managed cluster specification'')), \<sigma>)
         \<and> Reconcile g s spec \<sigma> =
           (Returned (Some (errorString ''expected managed cluster specification'')), \<sigma>)
         \<and> Delete ResourceNotFound s spec \<sigma> =
           (Returned (Some (errorString ''expected managed cluster specification'')), \<sigma>)
         \<and> GetCredentials s grp name \<sigma> =
           (Returned (fst (Client.GetCredentials (Client s) (client \<sigma>) grp name)),
            \<sigma>\<lparr>client := snd (Client.GetCredentials (Client s) (client \<sigma>) grp name),
              calls := calls \<sigma> @ [Call_GetCredentials grp name]\<rparr>)
         \<and> calls (snd (GetCredentials s grp name \<sigma>)) = calls \<sigma> @ [Call_GetCredentials grp name]"
proof -
  have three: "Get s spec \<sigma> =
           (Returned (None, Some (errorString ''expected managed cluster specification'')), \<sigma>)
         \<and> Reconcile g s spec \<sigma> =
           (Returned (Some (errorString ''expected managed cluster specification'')), \<sigma>)
         \<and> Delete ResourceNotFound s spec \<sigma> =
           (Returned (Some (errorString ''expected managed cluster specification'')), \<sigma>)"
  proof (cases spec)
    case (ptr_Spec p)
    with assms show ?thesis by blast
  qed (simp_all add: Get_def Reconcile_def Delete_def errors_New_def)
  have creds: "GetCredentials s grp name \<sigma> =
           (Returned (fst (Client.GetCredentials (Client s) (client \<sigma>) grp name)),
            \<sigma>\<lparr>client := snd (Client.GetCredentials (Client s) (client \<sigma>) grp name),
              calls := calls \<sigma> @ [Call_GetCredentials grp name]\<rparr>)"
    by (simp add: GetCredentials_def call_GetCredentials_def split: prod.splits)
  have "calls (snd (GetCredentials s grp name \<sigma>)) = calls \<sigma> @ [Call_GetCredentials grp name]"
    unfolding creds by simp
  with three creds show ?thesis by blast
qed

text \<open>
  C4, a run: a \<^verbatim>\<open>Spec\<close> passed by value, not by pointer, is refused by the three methods;
  GetCredentials calls the client even with an empty resource group and an empty name.
\<close>

theorem wrong_shape_rejected_before_any_call_witness:
  "Get (stub_service None) (val_Spec sample_spec) (memory_of sample_spec) =
     (Returned (None, Some (errorString ''expected managed cluster specification'')),
      memory_of sample_spec)
   \<and> Reconcile show_error (stub_service None) (val_Spec sample_spec) (memory_of sample_spec) =
     (Returned (Some (errorString ''expected managed cluster specification'')), memory_of sample_spec)
   \<and> Delete (\<lambda>e. False) (stub_service None) (val_Spec sample_spec) (memory_of sample_spec) =
     (Returned (Some (errorString ''expected managed cluster specification'')), memory_of sample_spec)
   \<and> GetCredentials (stub_service None) [] [] (memory_of sample_spec) =
     (Returned ([], None), (memory_of sample_spec)\<lparr>calls := [Call_GetCredentials [] []]\<rparr>)
   \<and> calls (snd (GetCredentials (stub_service None) [] [] (memory_of sample_spec))) =
     [Call_GetCredentials [] []]"
proof -
  have h: "\<And>p. val_Spec sample_spec \<noteq> ptr_Spec p" by simp
  have c: "Client.GetCredentials (Client (stub_service None)) u [] [] = (([], None), u)" for u
    by (simp add: stub_service_def)
  have m: "calls (memory_of sample_spec) = []"
    "(memory_of sample_spec)\<lparr>client := (), calls := [Call_GetCredentials [] []]\<rparr> =
     (memory_of sample_spec)\<lparr>calls := [Call_GetCredentials [] []]\<rparr>"
    by (simp_all add: memory_of_def)
  from wrong_shape_rejected_before_any_call
    [OF h, of "stub_service None" "memory_of sample_spec" show_error "\<lambda>e. False" "[]" "[]"]
  show ?thesis
    by (simp add: c m)
qed

subsection \<open>C5: a service CIDR that does not parse\<close>

text \<open>
  C5. When \<^verbatim>\<open>ServiceCIDR\<close> is not empty and \<^verbatim>\<open>net.ParseCIDR\<close> rejects it, Reconcile returns
  the error "failed to parse service cidr: ..." and leaves the state as it was: the
  client is not called.
\<close>

theorem invalid_service_cidr_rejected:
  assumes "ServiceCIDR (heap \<sigma> a) \<noteq> []"
    and "ParseCIDR (ServiceCIDR (heap \<sigma> a)) = Inl e"
  shows "Reconcile g s (ptr_Spec (Some a)) \<sigma> =
           (Returned (Some (Errorf_w ''failed to parse service cidr: '' e)), \<sigma>)
         \<and> calls (snd (Reconcile g s (ptr_Spec (Some a)) \<sigma>)) = calls \<sigma>"
  using Reconcile_Inl [OF derive_invalid_cidr [OF assms]] by simp

text \<open>C5, a run: \<^verbatim>\<open>ServiceCIDR = "not-a-cidr"\<close>.\<close>

theorem invalid_service_cidr_rejected_witness:
  "ServiceCIDR (heap (memory_of (sample_spec\<lparr>ServiceCIDR := ''not-a-cidr''\<rparr>)) 0) \<noteq> []
   \<and> ParseCIDR (ServiceCIDR (heap (memory_of (sample_spec\<lparr>ServiceCIDR := ''not-a-cidr''\<rparr>)) 0)) =
       Inl (ParseError ''CIDR address'' ''not-a-cidr'')
   \<and> Reconcile show_error (stub_service None) (ptr_Spec (Some 0))
         (memory_of (sample_spec\<lparr>ServiceCIDR := ''not-a-cidr''\<rparr>)) =
       (Returned (Some (wrapError ''failed to parse service cidr: invalid CIDR address: not-a-cidr''
                          (ParseError ''CIDR address'' ''not-a-cidr''))),
        memory_of (sample_spec\<lparr>ServiceCIDR := ''not-a-cidr''\<rparr>))"
proof -
  let ?m = "memory_of (sample_spec\<lparr>ServiceCIDR := ''not-a-cidr''\<rparr>)"
  have h1: "ServiceCIDR (heap ?m 0) \<noteq> []"
    by (simp add: memory_of_def)
  have h2: "ParseCIDR (ServiceCIDR (heap ?m 0)) = Inl (ParseError ''CIDR address'' ''not-a-cidr'')"
    by code_simp
  show ?thesis
    using h1 h2 invalid_service_cidr_rejected [OF h1 h2, of show_error "stub_service None"]
    by (simp add: Errorf_w_def)
qed

subsection \<open>C6: the defaults of the network profile\<close>



subsection \<open>C7: the agent pool profiles\<close>

text \<open>
  C7 fails on the code. Each profile holds the addresses of \<^verbatim>\<open>pool.Name\<close>,
  \<^verbatim>\<open>pool.OSDiskSizeGB\<close> and \<^verbatim>\<open>pool.Replicas\<close>, and \<^verbatim>\<open>pool\<close> is the one variable of the range
  loop: when the client is called every profile shows the name, disk size and count of
  the last pool. Only the VM size, copied in each round, is the pool's own. For the
  pools "pool-a" and "pool-b" both submitted profiles are named "pool-b".
\<close>

theorem agent_pool_profiles_share_the_loop_variable:
  "submitted (calls (snd (Reconcile show_error (stub_service None) (ptr_Spec (Some 0))
      (memory_of (sample_spec\<lparr>AgentPools := [pool_a, pool_b]\<rparr>))))) =
     [sample_resource\<lparr>AgentPoolProfiles :=
        [\<lparr>ManagedClusterAgentPoolProfile.Name = Some ''pool-b'', Count = Some 3,
          VMSize = ''Standard_D2s_v3'', OsDiskSizeGB = Some 100,
          Type = ''VirtualMachineScaleSets''\<rparr>,
         \<lparr>ManagedClusterAgentPoolProfile.Name = Some ''pool-b'', Count = Some 3,
          VMSize = ''Standard_D4s_v3'', OsDiskSizeGB = Some 100,
          Type = ''VirtualMachineScaleSets''\<rparr>]\<rparr>]
   \<and> PoolSpec.Name pool_a = ''pool-a'' \<and> Replicas pool_a = 1 \<and> OSDiskSizeGB pool_a = 30"
  by code_simp

text \<open>
  What Reconcile submits for any list of pools: one profile for each pool, in the order
  of the pools, with the VM size of its pool and the fixed type, and with the name, the
  count and the disk size of the last pool.
\<close>

lemma agent_pool_profiles_as_submitted:
  assumes "calls (snd (Reconcile g s (ptr_Spec (Some a)) \<sigma>)) =
             calls \<sigma> @ [Call_CreateOrUpdate rg name r]"
  shows "AgentPoolProfiles r =
           map (\<lambda>x. \<lparr>ManagedClusterAgentPoolProfile.Name =
                        Some (PoolSpec.Name (last (AgentPools (heap \<sigma> a)))),
                      Count = Some (Replicas (last (AgentPools (heap \<sigma> a)))),
                      VMSize = SKU x,
                      OsDiskSizeGB = Some (OSDiskSizeGB (last (AgentPools (heap \<sigma> a)))),
                      Type = VirtualMachineScaleSets\<rparr>)
             (AgentPools (heap \<sigma> a))"
proof -
  from assms obtain l where l: "derive_properties a (heap \<sigma> a) = Inr l"
    and r: "r = read_properties \<sigma> l"
    by (rule Reconcile_submitted)
  show ?thesis
  proof (cases "AgentPools (heap \<sigma> a) = []")
    case True
    with derive_AgentPoolProfiles(1) [OF l] show ?thesis
      by (simp add: r read_properties_def Let_def)
  next
    case False
    from derive_AgentPoolProfiles(2) [OF l False] derive_AgentPoolProfiles(1) [OF l]
    show ?thesis
      by (simp add: r read_properties_def read_profile_def Let_def)
  qed
qed

subsection \<open>C8: the errors of the provider client\<close>

text \<open>
  C8 as stated fails: Get returns the client's error as it is. With a client that fails
  with "boom", Get on the cluster "c1" of the resource group "rg1" returns the error
  "boom", which names neither the cluster nor the resource group.
\<close>

theorem Get_returns_the_client_error_bare:
  "fst (Get (stub_service (Some (errorString ''boom''))) (ptr_Spec (Some 0)) (memory_of sample_spec)) =
     Returned (Some empty_resource, Some (errorString ''boom''))
   \<and> Spec.Name (heap (memory_of sample_spec) 0) = ''c1''
   \<and> ResourceGroup (heap (memory_of sample_spec) 0) = ''rg1''
   \<and> \<not> Contains (Error (errorString ''boom'')) ''c1''
   \<and> \<not> Contains (Error (errorString ''boom'')) ''rg1''"
  by code_simp

text \<open>
  C8, amended. An error \<open>err\<close> of the client comes back from Get unchanged; from
  Reconcile as a new error with the message "failed to create or update managed
  cluster, " followed by the Go syntax of \<open>err\<close> (the operation, not the cluster or the
  resource group, and \<open>err\<close> is not wrapped); from Delete, unless \<open>ResourceNotFound\<close>
  recognises it, wrapped with the message "failed to delete managed cluster NAME in
  resource group GROUP: " and the message of \<open>err\<close>, so naming the operation, the cluster
  and the resource group, with \<open>err\<close> as its cause.
\<close>

theorem provider_errors_as_surfaced:
  "(Client.Get (Client s) (client \<sigma>) (ResourceGroup (heap \<sigma> a)) (Spec.Name (heap \<sigma> a)) =
        ((res, Some err), c')
      \<longrightarrow> fst (Get s (ptr_Spec (Some a)) \<sigma>) = Returned (Some res, Some err))
   \<and> (calls (snd (Reconcile g s (ptr_Spec (Some a)) \<sigma>)) = calls \<sigma> @ [Call_CreateOrUpdate rg name r]
        \<and> Client.CreateOrUpdate (Client s) (client \<sigma>) rg name r = (Some err, c')
      \<longrightarrow> fst (Reconcile g s (ptr_Spec (Some a)) \<sigma>) =
            Returned (Some (errorString (''failed to create or update managed cluster, '' @ g err))))
   \<and> (Client.Delete (Client s) (client \<sigma>) (ResourceGroup (heap \<sigma> a)) (Spec.Name (heap \<sigma> a)) =
        (Some err, c') \<and> \<not> ResourceNotFound err
      \<longrightarrow> (\<exists>e. fst (Delete ResourceNotFound s (ptr_Spec (Some a)) \<sigma>) = Returned (Some e)
             \<and> Error e = ''failed to delete managed cluster '' @ Spec.Name (heap \<sigma> a)
                  @ '' in resource group '' @ ResourceGroup (heap \<sigma> a) @ '': '' @ Error err
             \<and> Unwrap e = Some err
             \<and> Contains (Error e) ''delete''
             \<and> Contains (Error e) (Spec.Name (heap \<sigma> a))
             \<and> Contains (Error e) (ResourceGroup (heap \<sigma> a))))"
proof (intro conjI impI)
  assume "Client.Get (Client s) (client \<sigma>) (ResourceGroup (heap \<sigma> a)) (Spec.Name (heap \<sigma> a)) =
        ((res, Some err), c')"
  then show "fst (Get s (ptr_Spec (Some a)) \<sigma>) = Returned (Some res, Some err)"
    by (simp add: Get_def call_Get_def)
next
  assume h: "calls (snd (Reconcile g s (ptr_Spec (Some a)) \<sigma>)) =
               calls \<sigma> @ [Call_CreateOrUpdate rg name r]
        \<and> Client.CreateOrUpdate (Client s) (client \<sigma>) rg name r = (Some err, c')"
  then obtain l where "derive_properties a (heap \<sigma> a) = Inr l" and "r = read_properties \<sigma> l"
    and "rg = ResourceGroup (heap \<sigma> a)" and "name = Spec.Name (heap \<sigma> a)"
    by (blast elim: Reconcile_submitted)
  with h show "fst (Reconcile g s (ptr_Spec (Some a)) \<sigma>) =
            Returned (Some (errorString (''failed to create or update managed cluster, '' @ g err)))"
    by (simp add: Reconcile_def call_CreateOrUpdate_def)
next
  let ?name = "Spec.Name (heap \<sigma> a)" and ?rg = "ResourceGroup (heap \<sigma> a)"
  let ?e = "Wrapf err (''failed to delete managed cluster '' @ ?name @ '' in resource group '' @ ?rg)"
  assume "Client.Delete (Client s) (client \<sigma>) ?rg ?name = (Some err, c') \<and> \<not> ResourceNotFound err"
  then have d: "fst (Delete ResourceNotFound s (ptr_Spec (Some a)) \<sigma>) = Returned (Some ?e)"
    by (simp add: Delete_def call_Delete_def)
  have m: "Error ?e = ''failed to delete managed cluster '' @ ?name @ '' in resource group '' @ ?rg
             @ '': '' @ Error err"
    by (simp add: Wrapf_def)
  have u: "Unwrap ?e = Some err"
    by (simp add: Wrapf_def)
  have "Error ?e = ''failed to '' @ ''delete'' @ ('' managed cluster '' @ ?name
           @ '' in resource group '' @ ?rg @ '': '' @ Error err)"
    unfolding m by simp
  then have c0: "Contains (Error ?e) ''delete''"
    by (simp only: Contains_append)
  have "Error ?e = ''failed to delete managed cluster '' @ ?name
           @ ('' in resource group '' @ ?rg @ '': '' @ Error err)"
    unfolding m by simp
  then have c1: "Contains (Error ?e) ?name"
    by (simp only: Contains_append)
  have "Error ?e = (''failed to delete managed cluster '' @ ?name @ '' in resource group '')
           @ ?rg @ ('': '' @ Error err)"
    unfolding m by simp
  then have c2: "Contains (Error ?e) ?rg"
    by (simp only: Contains_append)
  from d m u c0 c1 c2
  show "\<exists>e. fst (Delete ResourceNotFound s (ptr_Spec (Some a)) \<sigma>) = Returned (Some e)
             \<and> Error e = ''failed to delete managed cluster '' @ Spec.Name (heap \<sigma> a)
                  @ '' in resource group '' @ ResourceGroup (heap \<sigma> a) @ '': '' @ Error err
             \<and> Unwrap e = Some err
             \<and> Contains (Error e) ''delete''
             \<and> Contains (Error e) (Spec.Name (heap \<sigma> a))
             \<and> Contains (Error e) (ResourceGroup (heap \<sigma> a))"
    by blast
qed

text \<open>
  C8, a run of the amended statement: the client fails every call with "boom", which
  is not a "not found" error.
\<close>

theorem provider_errors_as_surfaced_witness:
  "fst (Get (stub_service (Some (errorString ''boom''))) (ptr_Spec (Some 0)) (memory_of sample_spec)) =
     Returned (Some empty_resource, Some (errorString ''boom''))
   \<and> fst (Reconcile show_error (stub_service (Some (errorString ''boom''))) (ptr_Spec (Some 0))
            (memory_of sample_spec)) =
     Returned (Some (errorString (''failed to create or update managed cluster, ''
                                    @ show_error (errorString ''boom''))))
   \<and> (\<exists>e. fst (Delete (\<lambda>e. False) (stub_service (Some (errorString ''boom''))) (ptr_Spec (Some 0))
                 (memory_of sample_spec)) = Returned (Some e)
         \<and> Error e = ''failed to delete managed cluster c1 in resource group rg1: boom''
         \<and> Unwrap e = Some (errorString ''boom''))"
proof -
  let ?s = "stub_service (Some (errorString ''boom''))"
  let ?m = "memory_of sample_spec"
  have n: "Spec.Name (heap ?m 0) = ''c1''" "ResourceGroup (heap ?m 0) = ''rg1''"
    by (simp_all add: memory_of_def sample_spec_def)
  have hg: "Client.Get (Client ?s) (client ?m) (ResourceGroup (heap ?m 0)) (Spec.Name (heap ?m 0)) =
      ((empty_resource, Some (errorString ''boom'')), ())"
    by (simp add: stub_service_def)
  have hr: "calls (snd (Reconcile show_error ?s (ptr_Spec (Some 0)) ?m)) =
      calls ?m @ [Call_CreateOrUpdate ''rg1'' ''c1'' sample_resource]"
    by code_simp
  have hc: "Client.CreateOrUpdate (Client ?s) (client ?m) ''rg1'' ''c1'' sample_resource =
      (Some (errorString ''boom''), ())"
    by (simp add: stub_service_def)
  have hd: "Client.Delete (Client ?s) (client ?m) (ResourceGroup (heap ?m 0)) (Spec.Name (heap ?m 0)) =
      (Some (errorString ''boom''), ())"
    by (simp add: stub_service_def)
  note t = provider_errors_as_surfaced [of ?s ?m 0 _ "errorString ''boom''" "()" show_error
      "''rg1''" "''c1''" sample_resource "\<lambda>e. False"]
  from t hg have 1: "fst (Get ?s (ptr_Spec (Some 0)) ?m) =
      Returned (Some empty_resource, Some (errorString ''boom''))"
    by blast
  from t hr hc have 2: "fst (Reconcile show_error ?s (ptr_Spec (Some 0)) ?m) =
      Returned (Some (errorString (''failed to create or update managed cluster, ''
                                     @ show_error (errorString ''boom''))))"
    by blast
  from t hd n have 3: "\<exists>e. fst (Delete (\<lambda>e. False) ?s (ptr_Spec (Some 0)) ?m) = Returned (Some e)
         \<and> Error e = ''failed to delete managed cluster c1 in resource group rg1: boom''
         \<and> Unwrap e = Some (errorString ''boom'')"
    by auto
  from 1 2 3 show ?thesis by blast
qed

subsection \<open>C9: the specification is only read\<close>

text \<open>
  C9. None of the four methods changes a specification in memory, whatever value is
  passed as \<^verbatim>\<open>spec\<close> and whether the method returns an error, succeeds or panics. (The
  provider client is taken to read what it is passed and to write nothing of it.)
\<close>

theorem specification_not_mutated:
  "heap (snd (Get s spec \<sigma>)) = heap \<sigma>
   \<and> heap (snd (GetCredentials s grp name \<sigma>)) = heap \<sigma>
   \<and> heap (snd (Reconcile g s spec \<sigma>)) = heap \<sigma>
   \<and> heap (snd (Delete nf s spec \<sigma>)) = heap \<sigma>"
proof (intro conjI)
  show "heap (snd (Get s spec \<sigma>)) = heap \<sigma>"
    by (auto simp: Get_def call_Get_def split: iface.splits option.splits prod.splits)
  show "heap (snd (GetCredentials s grp name \<sigma>)) = heap \<sigma>"
    by (auto simp: GetCredentials_def call_GetCredentials_def split: prod.splits)
  show "heap (snd (Reconcile g s spec \<sigma>)) = heap \<sigma>"
    by (auto simp: Reconcile_def call_CreateOrUpdate_def
        split: iface.splits option.splits sum.splits prod.splits)
  show "heap (snd (Delete nf s spec \<sigma>)) = heap \<sigma>"
    by (auto simp: Delete_def call_Delete_def split: iface.splits option.splits prod.splits)
qed

subsection \<open>C10: a \<^verbatim>\<open>nil\<close> pointer of type \<^verbatim>\<open>*Spec\<close>\<close>

text \<open>
  C10. For a \<^verbatim>\<open>nil\<close> pointer of type \<^verbatim>\<open>*Spec\<close> the type assertion of Get, Reconcile and
  Delete holds, so none of them returns "expected managed cluster specification": each
  goes on to read a field of the specification and panics, before any call of the client.
\<close>

theorem typed_nil_pointer_passes_the_guard:
  "Get s (ptr_Spec None) \<sigma> = (Panicked NilPointerDereference, \<sigma>)
   \<and> Reconcile g s (ptr_Spec None) \<sigma> = (Panicked NilPointerDereference, \<sigma>)
   \<and> Delete nf s (ptr_Spec None) \<sigma> = (Panicked NilPointerDereference, \<sigma>)"
  by (simp add: Get_def Reconcile_def Delete_def)

end
